theory Spec2Isabelle
  imports Main
begin

section \<open>Python values\<close>

text \<open>
  The program (\<^verbatim>\<open>discogs.py\<close>) works on decoded JSON: \<^verbatim>\<open>None\<close>, booleans, integers,
  floats, strings, lists and dictionaries with string keys. A dictionary is an
  association list (a lookup takes the first binding of a key; a Python dictionary has
  each key once). A string is a list of characters, each read as a code point below 256.
  A float stands as what the program can observe of it: whether it is different from
  zero, and the text that \<^verbatim>\<open>str\<close> and \<^verbatim>\<open>repr\<close> give for it.
\<close>

datatype pyval =
    PNone
  | PBool bool
  | PInt int
  | PFloat bool string
  | PStr string
  | PList "pyval list"
  | PDict "(string \<times> pyval) list"

text \<open>The exceptions the modelled code can raise.\<close>

datatype error = AttributeError | TypeError | ValueError | RecursionError | Uncaught string

text \<open>
  Two limits of the interpreter bear on \<^verbatim>\<open>str\<close>: the largest number of decimal digits
  of an integer that is turned into text (\<^verbatim>\<open>sys.get_int_max_str_digits()\<close>, 4300 unless
  reconfigured, 0 for no limit), and the number of levels of nested lists and
  dictionaries that the recursion limit lets \<^verbatim>\<open>repr\<close> enter. Both belong to the running
  interpreter, so they are a parameter of every function that reaches \<^verbatim>\<open>str\<close>.
\<close>

record limits =
  int_max_str_digits :: nat
  repr_depth :: nat

definition default_limits :: limits where
  "default_limits = \<lparr> int_max_str_digits = 4300, repr_depth = 1000 \<rparr>"

text \<open>Sequencing of computations that may raise: the first exception wins.\<close>

definition ebind :: "error + 'a \<Rightarrow> ('a \<Rightarrow> error + 'b) \<Rightarrow> error + 'b" where
  "ebind m f = (case m of Inl e \<Rightarrow> Inl e | Inr x \<Rightarrow> f x)"

text \<open>Python truthiness (\<^verbatim>\<open>bool(v)\<close>).\<close>

fun truthy :: "pyval \<Rightarrow> bool" where
  "truthy PNone = False"
| "truthy (PBool b) = b"
| "truthy (PInt i) = (i \<noteq> 0)"
| "truthy (PFloat nz t) = nz"
| "truthy (PStr s) = (s \<noteq> [])"
| "truthy (PList xs) = (xs \<noteq> [])"
| "truthy (PDict kvs) = (kvs \<noteq> [])"

text \<open>\<^verbatim>\<open>a or b\<close> on values that are already computed.\<close>

definition py_or :: "pyval \<Rightarrow> pyval \<Rightarrow> pyval" where
  "py_or a b = (if truthy a then a else b)"

text \<open>\<^verbatim>\<open>d.get(key)\<close> and \<^verbatim>\<open>d.get(key, default)\<close> on a dictionary.\<close>

definition dict_get :: "(string \<times> pyval) list \<Rightarrow> string \<Rightarrow> pyval \<Rightarrow> pyval" where
  "dict_get kvs k d = (case map_of kvs k of None \<Rightarrow> d | Some v \<Rightarrow> v)"

text \<open>
  \<^verbatim>\<open>v.get(key, default)\<close> on any value: only a dictionary has the method.
\<close>

fun py_get :: "pyval \<Rightarrow> string \<Rightarrow> pyval \<Rightarrow> error + pyval" where
  "py_get (PDict kvs) k d = Inr (dict_get kvs k d)"
| "py_get _ k d = Inl AttributeError"

text \<open>\<^verbatim>\<open>isinstance(v, list)\<close> and \<^verbatim>\<open>isinstance(v, dict)\<close>.\<close>

fun is_list :: "pyval \<Rightarrow> bool" where
  "is_list (PList xs) = True"
| "is_list _ = False"

fun is_dict :: "pyval \<Rightarrow> bool" where
  "is_dict (PDict kvs) = True"
| "is_dict _ = False"

text \<open>
  Iterating a value (\<^verbatim>\<open>for x in v\<close>): a list gives its elements, a string its
  characters as one-character strings, a dictionary its keys; anything else is not
  iterable.
\<close>

fun py_iter :: "pyval \<Rightarrow> error + pyval list" where
  "py_iter (PList xs) = Inr xs"
| "py_iter (PStr s) = Inr (map (\<lambda>c. PStr [c]) s)"
| "py_iter (PDict kvs) = Inr (map (\<lambda>kv. PStr (fst kv)) kvs)"
| "py_iter _ = Inl TypeError"

section \<open>Strings\<close>

text \<open>
  Whitespace as \<^verbatim>\<open>str.isspace\<close>, \<^verbatim>\<open>str.strip()\<close> and the pattern \<^verbatim>\<open>\s\<close> of
  \<^verbatim>\<open>re\<close> see it on a \<^verbatim>\<open>str\<close>: the code points 9 to 13, 28 to 32, 133 and 160.
\<close>

definition is_space :: "char \<Rightarrow> bool" where
  "is_space c = ((of_char c :: nat) \<in> {9, 10, 11, 12, 13, 28, 29, 30, 31, 32, 133, 160})"

definition lstrip :: "string \<Rightarrow> string" where
  "lstrip s = dropWhile is_space s"

definition rstrip :: "string \<Rightarrow> string" where
  "rstrip s = rev (dropWhile is_space (rev s))"

text \<open>\<^verbatim>\<open>s.strip()\<close>.\<close>

definition strip :: "string \<Rightarrow> string" where
  "strip s = rstrip (lstrip s)"

text \<open>\<^verbatim>\<open>s.replace(a, b)\<close> for one-character \<open>a\<close> and \<open>b\<close>.\<close>

definition replace_char :: "char \<Rightarrow> char \<Rightarrow> string \<Rightarrow> string" where
  "replace_char a b s = map (\<lambda>c. if c = a then b else c) s"

text \<open>
  \<^verbatim>\<open>re.sub(r"\s+", " ", s)\<close>: every maximal run of whitespace becomes one space.
\<close>

function collapse_ws :: "string \<Rightarrow> string" where
  "collapse_ws [] = []"
| "collapse_ws (c # cs) =
     (if is_space c then CHR '' '' # collapse_ws (dropWhile is_space cs)
      else c # collapse_ws cs)"
  by pat_completeness auto
termination
  by (relation "measure length") (auto simp: length_dropWhile_le less_Suc_eq_le)

text \<open>\<^verbatim>\<open>sep.join(parts)\<close> on strings.\<close>

fun join :: "string \<Rightarrow> string list \<Rightarrow> string" where
  "join sep [] = []"
| "join sep [x] = x"
| "join sep (x # y # ys) = x @ sep @ join sep (y # ys)"

text \<open>
  \<^verbatim>\<open>sep.join(v)\<close> on a value: \<open>v\<close> is iterated, and every item must be a string.
\<close>

fun the_strs :: "pyval list \<Rightarrow> error + string list" where
  "the_strs [] = Inr []"
| "the_strs (PStr s # vs) = ebind (the_strs vs) (\<lambda>ss. Inr (s # ss))"
| "the_strs (_ # vs) = Inl TypeError"

definition py_join :: "string \<Rightarrow> pyval \<Rightarrow> error + string" where
  "py_join sep v = ebind (py_iter v) (\<lambda>xs. ebind (the_strs xs) (\<lambda>ss. Inr (join sep ss)))"

text \<open>\<^verbatim>\<open>s.lower()\<close> on code points below 256.\<close>

definition lower_char :: "char \<Rightarrow> char" where
  "lower_char c =
     (let n = (of_char c :: nat) in
      if (65 \<le> n \<and> n \<le> 90) \<or> (192 \<le> n \<and> n \<le> 222 \<and> n \<noteq> 215)
      then char_of (n + 32) else c)"

definition lower :: "string \<Rightarrow> string" where
  "lower s = map lower_char s"

text \<open>\<^verbatim>\<open>k in s\<close> on strings: \<open>k\<close> occurs in \<open>s\<close> as a contiguous piece.\<close>

fun starts_with :: "string \<Rightarrow> string \<Rightarrow> bool" where
  "starts_with [] s = True"
| "starts_with (k # ks) [] = False"
| "starts_with (k # ks) (c # cs) = (k = c \<and> starts_with ks cs)"

fun contains :: "string \<Rightarrow> string \<Rightarrow> bool" where
  "contains k [] = (k = [])"
| "contains k (c # cs) = (starts_with k (c # cs) \<or> contains k cs)"

subsection \<open>\<^verbatim>\<open>str(v)\<close>\<close>

fun str_of_nat :: "nat \<Rightarrow> string" where
  "str_of_nat n =
     (if n < 10 then [char_of (48 + n)]
      else str_of_nat (n div 10) @ [char_of (48 + n mod 10)])"

declare str_of_nat.simps [simp del]

text \<open>
  \<^verbatim>\<open>str\<close> of an integer raises \<^verbatim>\<open>ValueError\<close> when the integer has more decimal
  digits than the limit \<open>m\<close>, unless \<open>m\<close> is 0.
\<close>

definition str_of_int :: "nat \<Rightarrow> int \<Rightarrow> error + string" where
  "str_of_int m i =
     (let ds = str_of_nat (nat \<bar>i\<bar>)
      in if 0 < m \<and> m < length ds then Inl ValueError
         else Inr ((if i < 0 then ''-'' else []) @ ds))"

definition hex_digit :: "nat \<Rightarrow> char" where
  "hex_digit n = (if n < 10 then char_of (48 + n) else char_of (87 + n))"

text \<open>
  \<^verbatim>\<open>repr\<close> of a string: in single quotes, or in double quotes when the string has a
  single quote and no double quote; backslash, the quote, tab, newline and carriage
  return are escaped, and a code point that is not printable is written \<^verbatim>\<open>\xhh\<close>.
\<close>

definition printable :: "char \<Rightarrow> bool" where
  "printable c =
     (let n = (of_char c :: nat) in (32 \<le> n \<and> n < 127) \<or> (161 \<le> n \<and> n \<noteq> 173))"

definition repr_char :: "char \<Rightarrow> char \<Rightarrow> string" where
  "repr_char q c =
     (if c = CHR 0x5C then [CHR 0x5C, CHR 0x5C]
      else if c = q then [CHR 0x5C, q]
      else if c = CHR 0x09 then [CHR 0x5C, CHR ''t'']
      else if c = CHR 0x0A then [CHR 0x5C, CHR ''n'']
      else if c = CHR 0x0D then [CHR 0x5C, CHR ''r'']
      else if printable c then [c]
      else [CHR 0x5C, CHR ''x'', hex_digit (of_char c div 16), hex_digit (of_char c mod 16)])"

definition repr_str :: "string \<Rightarrow> string" where
  "repr_str s =
     (let q = (if CHR 0x27 \<in> set s \<and> CHR 0x22 \<notin> set s then CHR 0x22 else CHR 0x27)
      in [q] @ concat (map (repr_char q) s) @ [q])"

text \<open>Running a computation that may raise over a list, from left to right.\<close>

fun emap :: "('a \<Rightarrow> error + 'b) \<Rightarrow> 'a list \<Rightarrow> error + 'b list" where
  "emap f [] = Inr []"
| "emap f (x # xs) = ebind (f x) (\<lambda>y. ebind (emap f xs) (\<lambda>ys. Inr (y # ys)))"

text \<open>
  \<^verbatim>\<open>repr(v)\<close> under the digit limit \<open>m\<close>, with \<open>d\<close> levels of lists and dictionaries
  left to enter: entering one more raises \<^verbatim>\<open>RecursionError\<close>.
\<close>

fun py_repr :: "nat \<Rightarrow> nat \<Rightarrow> pyval \<Rightarrow> error + string" where
  "py_repr m d PNone = Inr ''None''"
| "py_repr m d (PBool b) = Inr (if b then ''True'' else ''False'')"
| "py_repr m d (PInt i) = str_of_int m i"
| "py_repr m d (PFloat nz t) = Inr t"
| "py_repr m d (PStr s) = Inr (repr_str s)"
| "py_repr m 0 (PList xs) = Inl RecursionError"
| "py_repr m (Suc d) (PList xs) =
     ebind (emap (py_repr m d) xs) (\<lambda>ss. Inr (''['' @ join '', '' ss @ '']''))"
| "py_repr m 0 (PDict kvs) = Inl RecursionError"
| "py_repr m (Suc d) (PDict kvs) =
     ebind (emap (\<lambda>kv. ebind (py_repr m d (snd kv))
                          (\<lambda>vs. Inr (repr_str (fst kv) @ '': '' @ vs))) kvs)
       (\<lambda>ss. Inr (''{'' @ join '', '' ss @ ''}''))"

text \<open>\<^verbatim>\<open>str(v)\<close>: a string is returned as it is, any other value goes through its \<^verbatim>\<open>repr\<close>.\<close>

definition py_str :: "limits \<Rightarrow> pyval \<Rightarrow> error + string" where
  "py_str lim v =
     (case v of
        PStr s \<Rightarrow> Inr s
      | _ \<Rightarrow> py_repr (int_max_str_digits lim) (repr_depth lim) v)"

section \<open>\<^verbatim>\<open>clean_text\<close>\<close>

text \<open>
  \<^verbatim>\<open>
  def clean_text(s):
      if s is None:
          return ""
      s = str(s).replace("\r", " ").replace("\n", " ").replace("\t", " ")
      return re.sub(r"\s+", " ", s).strip()
  \<close>
  \<open>clean_str\<close> is what happens to the text once \<^verbatim>\<open>str(s)\<close> has returned it; only
  \<^verbatim>\<open>str(s)\<close> can raise.
\<close>

definition clean_str :: "string \<Rightarrow> string" where
  "clean_str t =
     strip (collapse_ws
       (replace_char (CHR 0x09) CHR '' ''
         (replace_char (CHR 0x0A) CHR '' ''
           (replace_char (CHR 0x0D) CHR '' '' t))))"

definition clean_text :: "limits \<Rightarrow> pyval \<Rightarrow> error + string" where
  "clean_text lim s =
     (if s = PNone then Inr []
      else ebind (py_str lim s) (\<lambda>t. Inr (clean_str t)))"

section \<open>\<^verbatim>\<open>join_names\<close>\<close>

text \<open>
  The comprehension \<^verbatim>\<open>[o.get(k, "") for o in objs if isinstance(o, dict) and o.get(k)]\<close>,
  which \<^verbatim>\<open>join_names\<close> runs with \<^verbatim>\<open>k = "name"\<close> and the \<^verbatim>\<open>catno\<close> column with
  \<^verbatim>\<open>k = "catno"\<close>.
\<close>

definition field_of_dicts :: "string \<Rightarrow> pyval list \<Rightarrow> pyval list" where
  "field_of_dicts k objs =
     List.map_filter
       (\<lambda>ob. case ob of
          PDict kvs \<Rightarrow>
            if truthy (dict_get kvs k PNone) then Some (dict_get kvs k (PStr [])) else None
        | _ \<Rightarrow> None)
       objs"

text \<open>
  \<^verbatim>\<open>
  def join_names(objs):
      if not isinstance(objs, list):
          return ""
      return "|".join([o.get("name","") for o in objs if isinstance(o, dict) and o.get("name")])
  \<close>
\<close>

definition join_names :: "pyval \<Rightarrow> error + string" where
  "join_names objs =
     (case objs of
        PList os \<Rightarrow> ebind (the_strs (field_of_dicts ''name'' os)) (\<lambda>ss. Inr (join ''|'' ss))
      | _ \<Rightarrow> Inr [])"

section \<open>\<^verbatim>\<open>summarize_formats\<close>\<close>

text \<open>\<^verbatim>\<open>v.strip()\<close> on any value: only a string has the method.\<close>

definition py_strip :: "pyval \<Rightarrow> error + string" where
  "py_strip v = (case v of PStr s \<Rightarrow> Inr (strip s) | _ \<Rightarrow> Inl AttributeError)"

text \<open>\<^verbatim>\<open>(fmt.get(k) or "").strip()\<close>.\<close>

definition get_stripped :: "(string \<times> pyval) list \<Rightarrow> string \<Rightarrow> error + string" where
  "get_stripped fmt k = py_strip (py_or (dict_get fmt k PNone) (PStr []))"

definition variant_keywords :: "string list" where
  "variant_keywords = [''colored'', ''red'', ''blue'', ''green'', ''marbled'', ''splatter'',
                       ''limited'', ''reissue'', ''remastered'', ''club'']"

text \<open>\<^verbatim>\<open>d and any(k in d.lower() for k in [...])\<close>.\<close>

definition sniff :: "string \<Rightarrow> bool" where
  "sniff d = (d \<noteq> [] \<and> list_ex (\<lambda>k. contains k (lower d)) variant_keywords)"

text \<open>
  The inner loop over the descriptions, with \<^verbatim>\<open>variant_bits\<close> as its state:
  \<^verbatim>\<open>
  for d in descs:
      d = (d or "").strip()
      if d and any(...):
          variant_bits.append(d)
  \<close>
\<close>

fun sniff_descs :: "pyval list \<Rightarrow> string list \<Rightarrow> error + string list" where
  "sniff_descs [] bits = Inr bits"
| "sniff_descs (d # ds) bits =
     ebind (py_strip (py_or d (PStr [])))
       (\<lambda>d'. sniff_descs ds (if sniff d' then bits @ [d'] else bits))"

text \<open>
  The summary piece of one entry, from its trimmed name, the descriptions that are
  truthy, and its trimmed text and quantity:
  \<^verbatim>\<open>
  piece = " ".join([name] + [d for d in descs if d]).strip()
  if text:
      piece = f"{piece} ({text})".strip()
  if qty:
      piece = f"{piece} x{qty}".strip()
  \<close>
\<close>

definition make_piece :: "string \<Rightarrow> string list \<Rightarrow> string \<Rightarrow> string \<Rightarrow> string" where
  "make_piece nm ds txt qty =
     (let piece = strip (join '' '' (nm # ds));
          piece = (if txt \<noteq> [] then strip (piece @ '' ('' @ txt @ '')'') else piece);
          piece = (if qty \<noteq> [] then strip (piece @ '' x'' @ qty) else piece)
      in piece)"

text \<open>
  The body of the loop over the entries, for an entry that is a dictionary; the state is
  the pair of \<^verbatim>\<open>parts\<close> and \<^verbatim>\<open>variant_bits\<close>.
\<close>

definition fmt_step ::
  "(string \<times> pyval) list \<Rightarrow> string list \<times> string list \<Rightarrow> error + (string list \<times> string list)"
where
  "fmt_step fmt st =
     (case st of (parts, bits) \<Rightarrow>
      ebind (get_stripped fmt ''name'') (\<lambda>nm.
      ebind (get_stripped fmt ''qty'') (\<lambda>qty.
      ebind (get_stripped fmt ''text'') (\<lambda>txt.
        let descs = py_or (dict_get fmt ''descriptions'' (PList [])) (PList []);
            bits1 = (if txt \<noteq> [] then bits @ [txt] else bits)
        in
      ebind (py_iter descs) (\<lambda>ds.
      ebind (sniff_descs ds bits1) (\<lambda>bits2.
      ebind (the_strs (filter truthy ds)) (\<lambda>dstrs.
        let piece = make_piece nm dstrs txt qty
        in Inr (if piece \<noteq> [] then parts @ [piece] else parts, bits2))))))))"

fun fmt_loop ::
  "pyval list \<Rightarrow> string list \<times> string list \<Rightarrow> error + (string list \<times> string list)"
where
  "fmt_loop [] st = Inr st"
| "fmt_loop (PDict kvs # fs) st = ebind (fmt_step kvs st) (fmt_loop fs)"
| "fmt_loop (_ # fs) st = fmt_loop fs st"

text \<open>
  \<^verbatim>\<open>[b for b in variant_bits if not (b in seen or seen.add(b))]\<close>, with the set
  \<^verbatim>\<open>seen\<close> as state.
\<close>

fun dedup :: "string list \<Rightarrow> string set \<Rightarrow> string list" where
  "dedup [] seen = []"
| "dedup (b # bs) seen = (if b \<in> seen then dedup bs seen else b # dedup bs (insert b seen))"

definition summarize_formats :: "limits \<Rightarrow> pyval \<Rightarrow> error + (string \<times> string)" where
  "summarize_formats lim fmt_list =
     (case fmt_list of
        PList fs \<Rightarrow>
          ebind (fmt_loop fs ([], [])) (\<lambda>st. case st of (parts, bits) \<Rightarrow>
            let variant = py_or (PStr (join ''|'' (dedup bits {}))) (PStr [])
            in ebind (clean_text lim variant) (\<lambda>v. Inr (join ''|'' parts, v)))
      | _ \<Rightarrow> Inr ([], []))"

section \<open>\<^verbatim>\<open>pick\<close>\<close>

text \<open>
  \<^verbatim>\<open>
  def pick(key, full, basic, default=None):
      return (full or {}).get(key) or (basic or {}).get(key, default)
  \<close>
  The right operand of \<^verbatim>\<open>or\<close> runs only when the left one is falsy.
\<close>

definition pick :: "string \<Rightarrow> pyval \<Rightarrow> pyval \<Rightarrow> pyval \<Rightarrow> error + pyval" where
  "pick key full basic dflt =
     ebind (py_get (py_or full (PDict [])) key PNone) (\<lambda>v.
       if truthy v then Inr v else py_get (py_or basic (PDict [])) key dflt)"

section \<open>\<^verbatim>\<open>fetch_rows\<close>\<close>

record row =
  release_id :: pyval
  master_id :: pyval
  artist :: pyval
  title :: pyval
  date_added :: pyval
  variant :: pyval
  format :: pyval
  release_date :: pyval
  country :: pyval
  label :: pyval
  catno :: pyval
  genres :: pyval
  styles :: pyval

text \<open>
  The \<^verbatim>\<open>release_date\<close> column:
  \<^verbatim>\<open>clean_text(pick("released", full, basic,
      basic.get("released_formatted") or basic.get("year")))\<close>.
\<close>

definition release_date_of :: "limits \<Rightarrow> pyval \<Rightarrow> pyval \<Rightarrow> error + string" where
  "release_date_of lim full basic =
     ebind (py_get basic ''released_formatted'' PNone) (\<lambda>rf.
     ebind (if truthy rf then Inr rf else py_get basic ''year'' PNone) (\<lambda>dflt.
     ebind (pick ''released'' full basic dflt) (\<lambda>released.
       clean_text lim released)))"

text \<open>
  The \<^verbatim>\<open>catno\<close> column:
  \<^verbatim>\<open>"|".join([l.get("catno","") for l in (labels or [])
      if isinstance(l, dict) and l.get("catno")])\<close>.
\<close>

definition catno_of :: "pyval \<Rightarrow> error + string" where
  "catno_of labels =
     ebind (py_iter (py_or labels (PList []))) (\<lambda>ls.
     ebind (the_strs (field_of_dicts ''catno'' ls)) (\<lambda>ss. Inr (join ''|'' ss)))"

text \<open>
  The part of the loop body that builds the row of one item, from the item's data
  \<open>ci\<close>, its basic record, the release id and the full record. The expressions run in
  the order of the source, so the first exception is the one the source raises.
\<close>

definition assemble_row ::
  "limits \<Rightarrow> pyval \<Rightarrow> pyval \<Rightarrow> pyval \<Rightarrow> pyval \<Rightarrow> error + row"
where
  "assemble_row lim ci basic rel_id full =
     ebind (pick ''artists'' full basic (PList [])) (\<lambda>artists.
     ebind (pick ''labels'' full basic (PList [])) (\<lambda>labels.
     ebind (pick ''formats'' full basic (PList [])) (\<lambda>formats.
     ebind (pick ''genres'' full basic (PList [])) (\<lambda>gs.
     ebind (pick ''styles'' full basic (PList [])) (\<lambda>ss.
     ebind (py_get (py_or full (PDict [])) ''identifiers'' (PList [])) (\<lambda>identifiers.
     ebind (summarize_formats lim formats) (\<lambda>fv.
     ebind (pick ''master_id'' full basic PNone) (\<lambda>mid.
     ebind (join_names artists) (\<lambda>a0.
     ebind (clean_text lim (PStr a0)) (\<lambda>a.
     ebind (pick ''title'' full basic (PStr [])) (\<lambda>t0.
     ebind (clean_text lim t0) (\<lambda>t.
     ebind (py_get ci ''date_added'' PNone) (\<lambda>da0.
     ebind (clean_text lim da0) (\<lambda>da.
     ebind (release_date_of lim full basic) (\<lambda>rd.
     ebind (pick ''country'' full basic (PStr [])) (\<lambda>c0.
     ebind (clean_text lim c0) (\<lambda>c.
     ebind (join_names labels) (\<lambda>l0.
     ebind (clean_text lim (PStr l0)) (\<lambda>l.
     ebind (catno_of labels) (\<lambda>cn.
     ebind (py_join ''|'' (py_or gs (PList []))) (\<lambda>g.
     ebind (py_join ''|'' (py_or ss (PList []))) (\<lambda>s.
       Inr \<lparr> release_id = rel_id,
             master_id = mid,
             artist = PStr a,
             title = PStr t,
             date_added = PStr da,
             variant = PStr (snd fv),
             format = PStr (fst fv),
             release_date = PStr rd,
             country = PStr c,
             label = PStr l,
             catno = PStr cn,
             genres = PStr g,
             styles = PStr s \<rparr>))))))))))))))))))))))"

text \<open>
  An item of the collection listing, as the loop reads it: \<^verbatim>\<open>getattr(item, "data", {})\<close>
  and \<^verbatim>\<open>getattr(item.release, "id", None)\<close>; \<open>None\<close> stands for a missing attribute.
\<close>

record item =
  item_data :: "pyval option"
  item_release_id :: "pyval option"

text \<open>
  The detail fetch \<^verbatim>\<open>d.release(rel_id).data\<close> is the remote service: it returns the
  data, raises \<^verbatim>\<open>HTTPError\<close> (with the text \<^verbatim>\<open>str(e)\<close>), or raises something else.
\<close>

datatype fetch_result = Fetched pyval | HTTPError string | OtherError string

text \<open>
  \<^verbatim>\<open>
  ci = getattr(item, "data", {}) or {}
  basic = ci.get("basic_information", {}) or {}
  rel_id = getattr(item.release, "id", None) or basic.get("id")
  \<close>
\<close>

definition item_identity :: "item \<Rightarrow> error + (pyval \<times> pyval \<times> pyval)" where
  "item_identity it =
     (let ci = py_or (case item_data it of None \<Rightarrow> PDict [] | Some v \<Rightarrow> v) (PDict [])
      in
      ebind (py_get ci ''basic_information'' (PDict [])) (\<lambda>bi.
        let basic = py_or bi (PDict []);
            own = (case item_release_id it of None \<Rightarrow> PNone | Some v \<Rightarrow> v)
        in
      ebind (if truthy own then Inr own else py_get basic ''id'' PNone) (\<lambda>rel_id.
        Inr (ci, basic, rel_id))))"

text \<open>
  \<^verbatim>\<open>
  full = {}
  if INCLUDE_FULL_RELEASE:
      try:
          rel = d.release(rel_id)
          full = rel.data or {}
      except HTTPError as e:
          full = {"_fetch_error": str(e)}
  \<close>
  The source sets \<^verbatim>\<open>INCLUDE_FULL_RELEASE = True\<close>; here the flag is a parameter.
\<close>

definition fetch_full :: "bool \<Rightarrow> (pyval \<Rightarrow> fetch_result) \<Rightarrow> pyval \<Rightarrow> error + pyval" where
  "fetch_full include_full fetch rel_id =
     (if include_full then
        (case fetch rel_id of
           Fetched data \<Rightarrow> Inr (py_or data (PDict []))
         | HTTPError msg \<Rightarrow> Inr (PDict [(''_fetch_error'', PStr msg)])
         | OtherError msg \<Rightarrow> Inl (Uncaught msg))
      else Inr (PDict []))"

text \<open>
  One turn of the loop over the items: \<open>None\<close> when the item is skipped
  (\<^verbatim>\<open>if not rel_id: continue\<close>), the row otherwise. The pause and the progress lines
  are left out.
\<close>

definition process_item ::
  "limits \<Rightarrow> bool \<Rightarrow> (pyval \<Rightarrow> fetch_result) \<Rightarrow> item \<Rightarrow> error + row option"
where
  "process_item lim include_full fetch it =
     ebind (item_identity it) (\<lambda>idn. case idn of (ci, basic, rel_id) \<Rightarrow>
       if \<not> truthy rel_id then Inr None
       else
         ebind (fetch_full include_full fetch rel_id) (\<lambda>full.
         ebind (assemble_row lim ci basic rel_id full) (\<lambda>r. Inr (Some r))))"

fun fetch_loop ::
  "limits \<Rightarrow> bool \<Rightarrow> (pyval \<Rightarrow> fetch_result) \<Rightarrow> item list \<Rightarrow> row list \<Rightarrow> error + row list"
where
  "fetch_loop lim include_full fetch [] rows = Inr rows"
| "fetch_loop lim include_full fetch (it # its) rows =
     ebind (process_item lim include_full fetch it) (\<lambda>r.
       fetch_loop lim include_full fetch its
         (case r of None \<Rightarrow> rows | Some rw \<Rightarrow> rows @ [rw]))"

text \<open>\<^verbatim>\<open>fetch_rows\<close>, on the items of the folder in listing order.\<close>

definition fetch_rows ::
  "limits \<Rightarrow> bool \<Rightarrow> (pyval \<Rightarrow> fetch_result) \<Rightarrow> item list \<Rightarrow> error + row list"
where
  "fetch_rows lim include_full fetch items = fetch_loop lim include_full fetch items []"

section \<open>Notions of the specification\<close>

text \<open>
  A single-line, whitespace-normalized string: its only whitespace is the space
  character, no two spaces are adjacent, and it neither starts nor ends with one.
\<close>

fun single_spaced :: "string \<Rightarrow> bool" where
  "single_spaced [] = True"
| "single_spaced [c] = (is_space c \<longrightarrow> c = CHR '' '')"
| "single_spaced (c # d # cs) =
     ((is_space c \<longrightarrow> c = CHR '' '' \<and> \<not> is_space d) \<and> single_spaced (d # cs))"

definition normalized :: "string \<Rightarrow> bool" where
  "normalized s =
     (single_spaced s \<and> (s \<noteq> [] \<longrightarrow> \<not> is_space (hd s) \<and> \<not> is_space (last s)))"

text \<open>A row field that holds a string, and one that holds a normalized string.\<close>

definition is_str :: "pyval \<Rightarrow> bool" where
  "is_str v = (case v of PStr s \<Rightarrow> True | _ \<Rightarrow> False)"

definition clean_field :: "pyval \<Rightarrow> bool" where
  "clean_field v = (case v of PStr s \<Rightarrow> normalized s | _ \<Rightarrow> False)"

text \<open>
  Deduplication that keeps the first occurrence: an element stays exactly when it does
  not occur earlier in the list, and the elements that stay keep their order.
\<close>

definition first_occurrences :: "string list \<Rightarrow> string list" where
  "first_occurrences bs =
     map (\<lambda>i. bs ! i) (filter (\<lambda>i. bs ! i \<notin> set (take i bs)) [0..<length bs])"

text \<open>
  The release date as the specification words it: the full record's \<^verbatim>\<open>released\<close>
  if truthy, otherwise the basic record's; and whenever that is falsy, the basic record's
  \<^verbatim>\<open>released_formatted\<close>, then its \<^verbatim>\<open>year\<close>; normalized at the end.
\<close>

definition release_date_claimed ::
  "limits \<Rightarrow> (string \<times> pyval) list \<Rightarrow> (string \<times> pyval) list \<Rightarrow> error + string"
where
  "release_date_claimed lim full basic =
     (let primary = py_or (dict_get full ''released'' PNone) (dict_get basic ''released'' PNone)
      in clean_text lim
           (if truthy primary then primary
            else py_or (dict_get basic ''released_formatted'' PNone)
                       (dict_get basic ''year'' PNone)))"

text \<open>
  The summary piece as the specification words it, from the trimmed name, the
  descriptions, the trimmed text and the trimmed quantity: the name followed by each
  non-empty description, space-joined; wrapped as \<^verbatim>\<open>"{piece} ({text})"\<close> when the
  text is non-empty; with \<^verbatim>\<open>" x{qty}"\<close> appended when the quantity is non-empty.
\<close>

definition piece_claimed :: "string \<Rightarrow> string list \<Rightarrow> string \<Rightarrow> string \<Rightarrow> string" where
  "piece_claimed nm ds txt qty =
     (let piece = join '' '' (nm # filter (\<lambda>d. d \<noteq> []) ds);
          piece = (if txt \<noteq> [] then piece @ '' ('' @ txt @ '')'' else piece);
          piece = (if qty \<noteq> [] then piece @ '' x'' @ qty else piece)
      in piece)"

text \<open>
  The same with the trimming the code does: the name and the non-empty descriptions,
  space-joined and trimmed, then \<^verbatim>\<open>(text)\<close> and \<^verbatim>\<open>x{qty}\<close> for a non-empty text and
  quantity, the parts that are not empty separated by one space.
\<close>

definition piece_trimmed :: "string \<Rightarrow> string list \<Rightarrow> string \<Rightarrow> string \<Rightarrow> string" where
  "piece_trimmed nm ds txt qty =
     join '' ''
       (filter (\<lambda>p. p \<noteq> [])
          [strip (join '' '' (nm # filter (\<lambda>d. d \<noteq> []) ds)),
           if txt \<noteq> [] then ''('' @ txt @ '')'' else [],
           if qty \<noteq> [] then ''x'' @ qty else []])"

text \<open>
  The strings among the items of the descriptions, in order; an item that is not a string
  (and then falsy, where the code does not raise) gives none.
\<close>

definition desc_strings :: "pyval list \<Rightarrow> string list" where
  "desc_strings ds = List.map_filter (\<lambda>d. case d of PStr s \<Rightarrow> Some s | _ \<Rightarrow> None) ds"

text \<open>
  Entries on which \<^verbatim>\<open>summarize_formats\<close> does not raise: name, quantity and text are
  falsy or strings; the descriptions are absent or falsy, or a list whose items are
  falsy or strings, or a string, or a dictionary.
\<close>

definition str_or_falsy :: "pyval \<Rightarrow> bool" where
  "str_or_falsy v = (case v of PStr s \<Rightarrow> True | _ \<Rightarrow> \<not> truthy v)"

definition wf_entry :: "(string \<times> pyval) list \<Rightarrow> bool" where
  "wf_entry kvs =
     (str_or_falsy (dict_get kvs ''name'' PNone)
      \<and> str_or_falsy (dict_get kvs ''qty'' PNone)
      \<and> str_or_falsy (dict_get kvs ''text'' PNone)
      \<and> (case py_or (dict_get kvs ''descriptions'' (PList [])) (PList []) of
            PList ds \<Rightarrow> list_all str_or_falsy ds
          | PStr s \<Rightarrow> True
          | PDict d \<Rightarrow> True
          | _ \<Rightarrow> False))"

definition wf_formats :: "pyval list \<Rightarrow> bool" where
  "wf_formats fs = list_all (\<lambda>f. case f of PDict kvs \<Rightarrow> wf_entry kvs | _ \<Rightarrow> True) fs"

text \<open>
  The release identity of an item (\<^verbatim>\<open>None\<close> when reading it raises), and whether it
  is truthy.
\<close>

definition identity_of :: "item \<Rightarrow> pyval" where
  "identity_of it =
     (case item_identity it of Inr (ci, basic, rel_id) \<Rightarrow> rel_id | Inl e \<Rightarrow> PNone)"

definition has_identity :: "item \<Rightarrow> bool" where
  "has_identity it = truthy (identity_of it)"

text \<open>
  Values that \<^verbatim>\<open>clean_text\<close> turns into text without an exception.
\<close>

definition cleanable :: "limits \<Rightarrow> pyval \<Rightarrow> bool" where
  "cleanable lim v = (case clean_text lim v of Inr s \<Rightarrow> True | Inl e \<Rightarrow> False)"

text \<open>
  Records from which a row is built without an exception: under \<^verbatim>\<open>artists\<close> and
  \<^verbatim>\<open>labels\<close>, if a list, the names and catalogue numbers that are taken are strings,
  and \<^verbatim>\<open>labels\<close> is a list or falsy; \<^verbatim>\<open>formats\<close>, if a list, has only entries that
  \<^verbatim>\<open>summarize_formats\<close> accepts; \<^verbatim>\<open>genres\<close> and \<^verbatim>\<open>styles\<close> are falsy or lists of
  strings; and the title, the country and the three release-date values are cleanable.
\<close>

definition names_ok :: "string \<Rightarrow> pyval \<Rightarrow> bool" where
  "names_ok k v =
     (case v of PList os \<Rightarrow> list_all is_str (field_of_dicts k os) | _ \<Rightarrow> True)"

definition strs_ok :: "pyval \<Rightarrow> bool" where
  "strs_ok v =
     (case py_or v (PList []) of
        PList xs \<Rightarrow> list_all is_str xs
      | _ \<Rightarrow> False)"

definition wf_fields :: "limits \<Rightarrow> (string \<times> pyval) list \<Rightarrow> bool" where
  "wf_fields lim kvs =
     (names_ok ''name'' (dict_get kvs ''artists'' (PList []))
      \<and> names_ok ''name'' (dict_get kvs ''labels'' (PList []))
      \<and> (case py_or (dict_get kvs ''labels'' (PList [])) (PList []) of
            PList ls \<Rightarrow> list_all is_str (field_of_dicts ''catno'' ls)
          | _ \<Rightarrow> False)
      \<and> (case dict_get kvs ''formats'' (PList []) of
            PList fs \<Rightarrow> wf_formats fs
          | _ \<Rightarrow> True)
      \<and> strs_ok (dict_get kvs ''genres'' (PList []))
      \<and> strs_ok (dict_get kvs ''styles'' (PList []))
      \<and> list_all (\<lambda>k. cleanable lim (dict_get kvs k PNone))
            [''title'', ''country'', ''released'', ''released_formatted'', ''year''])"



section \<open>Auxiliary facts\<close>

lemma ebind_Inr [simp]: "ebind (Inr x) f = f x"
  by (simp add: ebind_def)

lemma ebind_Inl [simp]: "ebind (Inl e) f = Inl e"
  by (simp add: ebind_def)

lemma ebind_eq_Inr: "(ebind m f = Inr y) = (\<exists>x. m = Inr x \<and> f x = Inr y)"
  by (cases m) simp_all

subsection \<open>Whitespace\<close>

lemma is_space_space: "is_space CHR '' ''"
  by (simp add: is_space_def)


lemma single_spaced_dropWhile: "single_spaced s \<Longrightarrow> single_spaced (dropWhile P s)"
  by (induction s rule: single_spaced.induct) auto

lemma hd_dropWhile_space: "dropWhile is_space s = d # ds \<Longrightarrow> \<not> is_space d"
  by (metis hd_dropWhile list.sel(1) list.distinct(1))

lemma single_spaced_collapse: "single_spaced (collapse_ws s)"
proof (induction s rule: collapse_ws.induct)
  case 1
  show ?case by simp
next
  case (2 c cs)
  show ?case
  proof (cases "is_space c")
    case True
    note sp = this
    show ?thesis
    proof (cases "dropWhile is_space cs")
      case Nil
      then have "collapse_ws (dropWhile is_space cs) = []"
        by (simp only: collapse_ws.simps)
      with sp show ?thesis by (simp add: is_space_space)
    next
      case (Cons d ds)
      then have nd: "\<not> is_space d" by (rule hd_dropWhile_space)
      from 2(1)[OF sp] Cons have "single_spaced (collapse_ws (d # ds))" by simp
      with sp Cons nd show ?thesis by (simp add: is_space_space)
    qed
  next
    case False
    with 2(2) show ?thesis
      by (cases "collapse_ws cs") auto
  qed
qed


lemma single_spaced_append: "single_spaced (xs @ ys) \<Longrightarrow> single_spaced xs"
proof (induction xs rule: single_spaced.induct)
  case 1
  show ?case by simp
next
  case (2 c)
  then show ?case by (cases ys) auto
next
  case (3 c d cs)
  then show ?case by auto
qed

lemma rstrip_prefix: "rstrip s @ rev (takeWhile is_space (rev s)) = s"
  unfolding rstrip_def
  by (metis rev_append rev_rev_ident takeWhile_dropWhile_id)

lemma single_spaced_rstrip: "single_spaced s \<Longrightarrow> single_spaced (rstrip s)"
  by (metis rstrip_prefix single_spaced_append)

lemma single_spaced_strip: "single_spaced s \<Longrightarrow> single_spaced (strip s)"
  by (simp add: strip_def lstrip_def single_spaced_rstrip single_spaced_dropWhile)

lemma rstrip_Nil: "rstrip [] = []"
  by (simp add: rstrip_def)

lemma rstrip_Cons:
  "rstrip (c # cs) = (if rstrip cs = [] \<and> is_space c then [] else c # rstrip cs)"
  by (auto simp: rstrip_def dropWhile_append)

lemma rstrip_last: "rstrip s \<noteq> [] \<Longrightarrow> \<not> is_space (last (rstrip s))"
  by (simp add: rstrip_def last_rev hd_dropWhile)

lemma rstrip_hd:
  "s \<noteq> [] \<Longrightarrow> \<not> is_space (hd s) \<Longrightarrow> rstrip s \<noteq> [] \<and> hd (rstrip s) = hd s"
  by (cases s) (auto simp: rstrip_Cons)

lemma strip_ends:
  "strip s \<noteq> [] \<Longrightarrow> \<not> is_space (hd (strip s)) \<and> \<not> is_space (last (strip s))"
proof -
  assume ne: "strip s \<noteq> []"
  then have l: "lstrip s \<noteq> []" by (auto simp: strip_def rstrip_Nil)
  then have h: "\<not> is_space (hd (lstrip s))" by (simp add: lstrip_def hd_dropWhile)
  from rstrip_hd[OF l h] have "hd (strip s) = hd (lstrip s)" by (simp add: strip_def)
  with h have "\<not> is_space (hd (strip s))" by simp
  moreover from ne have "\<not> is_space (last (strip s))" by (simp add: strip_def rstrip_last)
  ultimately show ?thesis by simp
qed

lemma strip_fixed:
  "s = [] \<or> (\<not> is_space (hd s) \<and> \<not> is_space (last s)) \<Longrightarrow> strip s = s"
proof -
  assume a: "s = [] \<or> (\<not> is_space (hd s) \<and> \<not> is_space (last s))"
  then have l: "dropWhile is_space s = s" by (auto simp: dropWhile_eq_self_iff)
  from a have "dropWhile is_space (rev s) = rev s"
    by (auto simp: dropWhile_eq_self_iff hd_rev)
  with l show ?thesis by (simp add: strip_def lstrip_def rstrip_def)
qed


lemma normalized_Nil: "normalized []"
  by (simp add: normalized_def)

lemma normalized_clean_str: "normalized (clean_str t)"
  by (auto simp: normalized_def clean_str_def single_spaced_strip single_spaced_collapse
      strip_ends)


lemma clean_text_PStr: "clean_text lim (PStr s) = Inr (clean_str s)"
  by (simp add: clean_text_def py_str_def)

lemma clean_text_normalized: "clean_text lim x = Inr s \<Longrightarrow> normalized s"
  by (auto simp: clean_text_def ebind_eq_Inr normalized_clean_str normalized_Nil
      split: if_splits)

subsection \<open>The limits of \<^verbatim>\<open>str\<close>\<close>











subsection \<open>Deduplication\<close>

lemma dedup_index:
  "dedup bs seen =
     map (\<lambda>i. bs ! i) (filter (\<lambda>i. bs ! i \<notin> seen \<union> set (take i bs)) [0..<length bs])"
proof (induction bs arbitrary: seen)
  case Nil
  show ?case by simp
next
  case (Cons b bs)
  have up: "[0..<length (b # bs)] = 0 # map Suc [0..<length bs]"
    by (metis length_Cons map_Suc_upt upt_conv_Cons zero_less_Suc)
  show ?case
  proof (cases "b \<in> seen")
    case True
    then have "(\<lambda>i. bs ! i \<notin> seen \<and> bs ! i \<noteq> b \<and> bs ! i \<notin> set (take i bs)) =
               (\<lambda>i. bs ! i \<notin> seen \<and> bs ! i \<notin> set (take i bs))"
      by (auto simp: fun_eq_iff)
    with True show ?thesis unfolding up by (simp add: Cons filter_map o_def)
  next
    case False
    have "(\<lambda>i. bs ! i \<notin> seen \<and> bs ! i \<noteq> b \<and> bs ! i \<notin> set (take i bs)) =
          (\<lambda>i. bs ! i \<noteq> b \<and> bs ! i \<notin> seen \<and> bs ! i \<notin> set (take i bs))"
      by (auto simp: fun_eq_iff)
    with False show ?thesis unfolding up by (simp add: Cons filter_map o_def)
  qed
qed

lemma dedup_first_occurrences: "dedup bs {} = first_occurrences bs"
  by (simp add: dedup_index first_occurrences_def)

lemma clean_str_red_limited: "clean_str ''Red|Limited'' = ''Red|Limited''"
  by code_simp

lemma first_occurrences_red:
  "first_occurrences [''Red'', ''Limited'', ''Red''] = [''Red'', ''Limited'']"
  by code_simp

lemma summarize_formats_list:
  "summarize_formats lim (PList fs) =
     ebind (fmt_loop fs ([], [])) (\<lambda>st.
       Inr (join ''|'' (fst st), clean_str (join ''|'' (first_occurrences (snd st)))))"
  by (cases "fmt_loop fs ([], [])")
     (auto simp: summarize_formats_def py_or_def dedup_first_occurrences clean_text_PStr
        clean_str_def strip_def lstrip_def rstrip_def replace_char_def split: prod.splits)

subsection \<open>The failure marker\<close>

lemma pick_sentinel:
  "k \<noteq> ''_fetch_error'' \<Longrightarrow>
   pick k (PDict [(''_fetch_error'', v)]) basic d = pick k (PDict []) basic d"
  by (simp add: pick_def py_or_def dict_get_def)

lemma release_date_sentinel:
  "release_date_of lim (PDict [(''_fetch_error'', v)]) basic = release_date_of lim (PDict []) basic"
  by (simp add: release_date_of_def pick_sentinel)

lemma assemble_row_sentinel:
  "assemble_row lim ci basic rel_id (PDict [(''_fetch_error'', PStr msg)]) =
   assemble_row lim ci basic rel_id (PDict [])"
  by (simp add: assemble_row_def pick_sentinel release_date_sentinel py_or_def dict_get_def)

lemma process_item_sentinel:
  "process_item lim True (\<lambda>i. HTTPError (m i)) it = process_item lim False g it"
  by (auto simp: process_item_def fetch_full_def assemble_row_sentinel ebind_def
      split: sum.splits prod.splits)

lemma fetch_loop_sentinel:
  "fetch_loop lim True (\<lambda>i. HTTPError (m i)) its rows = fetch_loop lim False g its rows"
  by (induction its arbitrary: rows) (simp_all add: process_item_sentinel [where g = g])

subsection \<open>Rows, items and format entries\<close>

lemma release_date_of_dicts:
  "release_date_of lim (PDict f) (PDict b) =
     clean_text lim
       (if truthy (dict_get f ''released'' PNone) then dict_get f ''released'' PNone
        else (case map_of b ''released'' of
                Some w \<Rightarrow> w
              | None \<Rightarrow> py_or (dict_get b ''released_formatted'' PNone)
                              (dict_get b ''year'' PNone)))"
  by (cases f; cases b)
     (auto simp: release_date_of_def pick_def py_or_def dict_get_def split: option.splits)

lemma assemble_row_release_date:
  "assemble_row lim ci basic rel_id full = Inr r \<Longrightarrow>
   release_date_of lim full basic = Inr rd \<Longrightarrow> release_date r = PStr rd"
  by (auto simp: assemble_row_def ebind_eq_Inr)

lemma summarize_formats_variant:
  "summarize_formats lim v = Inr fv \<Longrightarrow> normalized (snd fv)"
  by (cases v)
     (auto simp: summarize_formats_def ebind_eq_Inr normalized_Nil
        dest: clean_text_normalized split: prod.splits)

lemma release_date_of_normalized:
  "release_date_of lim full basic = Inr rd \<Longrightarrow> normalized rd"
  by (auto simp: release_date_of_def ebind_eq_Inr dest: clean_text_normalized
      split: if_splits)

lemma assemble_row_release_id: "assemble_row lim ci basic rel_id full = Inr r \<Longrightarrow> release_id r = rel_id"
  by (auto simp: assemble_row_def ebind_eq_Inr)

lemma process_item_None:
  "process_item lim inc fetch it = Inr None \<Longrightarrow> \<not> has_identity it"
  by (auto simp: process_item_def ebind_eq_Inr has_identity_def identity_of_def split: if_splits)

lemma process_item_Some:
  "process_item lim inc fetch it = Inr (Some r) \<Longrightarrow> has_identity it \<and> release_id r = identity_of it"
  by (auto simp: process_item_def ebind_eq_Inr has_identity_def identity_of_def assemble_row_release_id split: if_splits)

lemma process_item_skip:
  "item_identity it = Inr (ci, basic, rel_id) \<Longrightarrow> \<not> truthy rel_id \<Longrightarrow> process_item lim inc fetch it = Inr None"
  by (simp add: process_item_def)

lemma process_item_keep:
  "item_identity it = Inr (ci, basic, rel_id) \<Longrightarrow> truthy rel_id \<Longrightarrow> process_item lim inc fetch it \<noteq> Inr None"
  by (auto simp: process_item_def ebind_eq_Inr)

lemma fetch_loop_ids:
  "fetch_loop lim inc fetch its rows = Inr out \<Longrightarrow>
     map release_id out = map release_id rows @ map identity_of (filter has_identity its)"
proof (induction its arbitrary: rows)
  case Nil
  then show ?case by simp
next
  case (Cons it its)
  from Cons.prems obtain x where x: "process_item lim inc fetch it = Inr x"
    and rest: "fetch_loop lim inc fetch its (case x of None \<Rightarrow> rows | Some rw \<Rightarrow> rows @ [rw]) = Inr out"
    by (auto simp: ebind_eq_Inr)
  show ?case
  proof (cases x)
    case None
    with x have "\<not> has_identity it" by (simp add: process_item_None)
    with Cons.IH[OF rest] None show ?thesis by simp
  next
    case (Some rw)
    with x have "has_identity it \<and> release_id rw = identity_of it" by (simp add: process_item_Some)
    with Cons.IH[OF rest] Some show ?thesis by simp
  qed
qed

lemma fetch_rows_count:
  "fetch_rows lim inc fetch its = Inr out \<Longrightarrow>
     length out = length its - length (filter (\<lambda>it. \<not> has_identity it) its)"
proof -
  assume "fetch_rows lim inc fetch its = Inr out"
  then have "map release_id out = map identity_of (filter has_identity its)"
    using fetch_loop_ids[of lim inc fetch its "[]" out] by (simp add: fetch_rows_def)
  then have "length out = length (filter has_identity its)"
    by (metis length_map)
  moreover have "length its = length (filter has_identity its) + length (filter (\<lambda>it. \<not> has_identity it) its)"
    by (rule sum_length_filter_compl [symmetric])
  ultimately show ?thesis by simp
qed

lemma fetch_loop_raises:
  "process_item lim inc fetch it = Inl e \<Longrightarrow>
   \<exists>e'. fetch_loop lim inc fetch (pre @ it # post) rows = Inl e'"
proof (induction pre arbitrary: rows)
  case Nil
  then show ?case by simp
next
  case (Cons p pre)
  then show ?case by (cases "process_item lim inc fetch p") simp_all
qed

lemma rstrip_fixed: "s \<noteq> [] \<Longrightarrow> \<not> is_space (last s) \<Longrightarrow> rstrip s = s"
proof -
  assume "s \<noteq> []" "\<not> is_space (last s)"
  then have "dropWhile is_space (rev s) = rev s"
    by (simp add: dropWhile_eq_self_iff hd_rev)
  then show ?thesis by (simp add: rstrip_def)
qed

lemma strip_glue:
  assumes a: "a = [] \<or> \<not> is_space (hd a)" and c: "\<not> is_space c" and l: "\<not> is_space (last (c # b))"
  shows "strip (a @ CHR '' '' # c # b) = (if a = [] then c # b else a @ CHR '' '' # c # b)"
proof (cases "a = []")
  case True
  have "lstrip (CHR '' '' # c # b) = c # b"
    using c by (simp add: lstrip_def is_space_space)
  moreover have "rstrip (c # b) = c # b"
    using l by (intro rstrip_fixed) simp_all
  ultimately show ?thesis using True by (simp add: strip_def)
next
  case False
  with a have "\<not> is_space (hd (a @ CHR '' '' # c # b))" by simp
  moreover have "\<not> is_space (last (a @ CHR '' '' # c # b))" using l by simp
  ultimately have "strip (a @ CHR '' '' # c # b) = a @ CHR '' '' # c # b"
    by (intro strip_fixed) blast
  with False show ?thesis by simp
qed

lemma strip_hd: "strip s = [] \<or> \<not> is_space (hd (strip s))"
  using strip_ends by blast

lemma get_stripped_ends:
  "get_stripped kvs k = Inr s \<Longrightarrow> s = [] \<or> (\<not> is_space (hd s) \<and> \<not> is_space (last s))"
  using strip_ends by (auto simp: get_stripped_def py_strip_def split: pyval.splits)

lemma make_piece_trimmed:
  assumes t: "txt = [] \<or> (\<not> is_space (hd txt) \<and> \<not> is_space (last txt))"
    and q: "qty = [] \<or> (\<not> is_space (hd qty) \<and> \<not> is_space (last qty))"
  shows "make_piece nm (filter (\<lambda>d. d \<noteq> []) ds) txt qty = piece_trimmed nm ds txt qty"
proof -
  let ?p1 = "strip (join '' '' (nm # filter (\<lambda>d. d \<noteq> []) ds))"
  let ?p2 = "if txt \<noteq> [] then strip (?p1 @ '' ('' @ txt @ '')'') else ?p1"
  have h1: "?p1 = [] \<or> \<not> is_space (hd ?p1)" by (rule strip_hd)
  have np: "\<not> is_space CHR ''(''" "\<not> is_space CHR '')''" "\<not> is_space CHR ''x''"
    by (simp_all add: is_space_def)
  have p2: "?p2 = (if txt \<noteq> [] then (if ?p1 = [] then ''('' @ txt @ '')'' else ?p1 @ '' ('' @ txt @ '')'') else ?p1)"
    using strip_glue[OF h1 np(1), of "txt @ '')''"] np(2) by simp
  have h2: "?p2 = [] \<or> \<not> is_space (hd ?p2)"
    unfolding p2 using h1 np(1) by auto
  have lq: "qty \<noteq> [] \<Longrightarrow> \<not> is_space (last (CHR ''x'' # qty))" using q by simp
  have p3: "qty \<noteq> [] \<Longrightarrow> strip (?p2 @ '' x'' @ qty) = (if ?p2 = [] then ''x'' @ qty else ?p2 @ '' x'' @ qty)"
    using strip_glue[OF h2 np(3) lq] by simp
  have "make_piece nm (filter (\<lambda>d. d \<noteq> []) ds) txt qty =
          (if qty \<noteq> [] then (if ?p2 = [] then ''x'' @ qty else ?p2 @ '' x'' @ qty) else ?p2)"
    using p3 by (simp add: make_piece_def Let_def)
  also have "\<dots> = piece_trimmed nm ds txt qty"
    unfolding p2 by (simp add: piece_trimmed_def)
  finally show ?thesis .
qed

lemma py_strip_ok: "str_or_falsy v \<Longrightarrow> \<exists>s. py_strip (py_or v (PStr [])) = Inr s"
  by (cases v) (auto simp: str_or_falsy_def py_strip_def py_or_def)

lemma py_strip_falsy: "py_strip (py_or v (PStr [])) = Inr s \<Longrightarrow> str_or_falsy v"
  by (cases v) (auto simp: str_or_falsy_def py_strip_def py_or_def split: if_splits)

lemma sniff_descs_ok: "list_all str_or_falsy ds \<Longrightarrow> \<exists>bits'. sniff_descs ds bits = Inr bits'"
proof (induction ds arbitrary: bits)
  case Nil
  show ?case by simp
next
  case (Cons d ds)
  then obtain s where "py_strip (py_or d (PStr [])) = Inr s" using py_strip_ok by auto
  with Cons show ?case by simp
qed

lemma sniff_descs_falsy: "sniff_descs ds bits = Inr bits' \<Longrightarrow> list_all str_or_falsy ds"
  by (induction ds arbitrary: bits) (auto simp: ebind_eq_Inr dest: py_strip_falsy)

lemma the_strs_ok: "list_all str_or_falsy ds \<Longrightarrow> \<exists>ss. the_strs (filter truthy ds) = Inr ss"
proof (induction ds)
  case Nil
  show ?case by simp
next
  case (Cons d ds)
  then show ?case by (cases d) (auto simp: str_or_falsy_def)
qed

lemma the_strs_desc:
  "list_all str_or_falsy ds \<Longrightarrow>
   the_strs (filter truthy ds) = Inr (filter (\<lambda>d. d \<noteq> []) (desc_strings ds))"
proof (induction ds)
  case Nil
  show ?case by (simp add: desc_strings_def map_filter_simps)
next
  case (Cons d ds)
  then show ?case
    by (cases d) (auto simp: str_or_falsy_def desc_strings_def map_filter_simps)
qed

lemma fmt_step_piece:
  assumes "get_stripped kvs ''name'' = Inr nm" "get_stripped kvs ''qty'' = Inr qty"
    "get_stripped kvs ''text'' = Inr txt"
    "py_iter (py_or (dict_get kvs ''descriptions'' (PList [])) (PList [])) = Inr ds"
    "list_all str_or_falsy ds"
  shows "\<exists>bits'. fmt_step kvs (parts, bits) =
           Inr (if piece_trimmed nm (desc_strings ds) txt qty \<noteq> []
                then parts @ [piece_trimmed nm (desc_strings ds) txt qty] else parts, bits')"
proof -
  obtain b' where b': "sniff_descs ds (if txt \<noteq> [] then bits @ [txt] else bits) = Inr b'"
    using sniff_descs_ok [OF assms(5)] by blast
  have mp: "make_piece nm (filter (\<lambda>d. d \<noteq> []) (desc_strings ds)) txt qty =
              piece_trimmed nm (desc_strings ds) txt qty"
    using get_stripped_ends[OF assms(3)] get_stripped_ends[OF assms(2)]
    by (rule make_piece_trimmed)
  show ?thesis
    using assms(1-4) b' by (simp add: fmt_step_def Let_def the_strs_desc [OF assms(5)] mp)
qed

lemma fmt_step_returns:
  assumes "fmt_step kvs (parts, bits) = Inr (parts', bits')"
  shows "\<exists>nm qty txt ds.
           get_stripped kvs ''name'' = Inr nm \<and> get_stripped kvs ''qty'' = Inr qty
           \<and> get_stripped kvs ''text'' = Inr txt
           \<and> py_iter (py_or (dict_get kvs ''descriptions'' (PList [])) (PList [])) = Inr ds
           \<and> list_all str_or_falsy ds
           \<and> parts' = (if piece_trimmed nm (desc_strings ds) txt qty \<noteq> []
                        then parts @ [piece_trimmed nm (desc_strings ds) txt qty] else parts)"
proof -
  from assms obtain nm qty tx ds b2 where
    n: "get_stripped kvs ''name'' = Inr nm" and q: "get_stripped kvs ''qty'' = Inr qty"
    and t: "get_stripped kvs ''text'' = Inr tx"
    and d: "py_iter (py_or (dict_get kvs ''descriptions'' (PList [])) (PList [])) = Inr ds"
    and sn: "sniff_descs ds (if tx \<noteq> [] then bits @ [tx] else bits) = Inr b2"
    by (auto simp: fmt_step_def Let_def ebind_eq_Inr)
  from sn have all: "list_all str_or_falsy ds" by (rule sniff_descs_falsy)
  from fmt_step_piece [OF n q t d all, of parts bits] assms
  have "parts' = (if piece_trimmed nm (desc_strings ds) tx qty \<noteq> []
                  then parts @ [piece_trimmed nm (desc_strings ds) tx qty] else parts)"
    by auto
  with n q t d all show ?thesis by blast
qed

lemma descs_ok:
  "wf_entry kvs \<Longrightarrow>
   \<exists>ds. py_iter (py_or (dict_get kvs ''descriptions'' (PList [])) (PList [])) = Inr ds \<and> list_all str_or_falsy ds"
  by (cases "py_or (dict_get kvs ''descriptions'' (PList [])) (PList [])")
     (auto simp: wf_entry_def list_all_iff str_or_falsy_def)

lemma fmt_step_ok: "wf_entry kvs \<Longrightarrow> \<exists>st'. fmt_step kvs st = Inr st'"
proof -
  assume wf: "wf_entry kvs"
  obtain parts bits where st: "st = (parts, bits)" by (cases st)
  from wf obtain nm where nm: "get_stripped kvs ''name'' = Inr nm"
    using py_strip_ok by (auto simp: wf_entry_def get_stripped_def)
  from wf obtain qty where q: "get_stripped kvs ''qty'' = Inr qty"
    using py_strip_ok by (auto simp: wf_entry_def get_stripped_def)
  from wf obtain tx where t: "get_stripped kvs ''text'' = Inr tx"
    using py_strip_ok by (auto simp: wf_entry_def get_stripped_def)
  from descs_ok[OF wf] obtain ds where
    ds: "py_iter (py_or (dict_get kvs ''descriptions'' (PList [])) (PList [])) = Inr ds"
    and all: "list_all str_or_falsy ds" by blast
  from sniff_descs_ok[OF all] obtain b' where
    b': "sniff_descs ds (if tx \<noteq> [] then bits @ [tx] else bits) = Inr b'" by blast
  from the_strs_ok[OF all] obtain ss where ss: "the_strs (filter truthy ds) = Inr ss" by blast
  show ?thesis
    using st nm q t ds b' ss by (simp add: fmt_step_def Let_def)
qed

lemma fmt_loop_ok: "wf_formats fs \<Longrightarrow> \<exists>st'. fmt_loop fs st = Inr st'"
proof (induction fs arbitrary: st)
  case Nil
  show ?case by simp
next
  case (Cons f fs)
  then have rest: "wf_formats fs" by (simp add: wf_formats_def)
  show ?case
  proof (cases f)
    case (PDict kvs)
    with Cons.prems have "wf_entry kvs" by (simp add: wf_formats_def)
    then obtain st1 where "fmt_step kvs st = Inr st1" using fmt_step_ok by blast
    with PDict Cons.IH[OF rest, of st1] show ?thesis by simp
  qed (use Cons.IH[OF rest, of st] in simp_all)
qed

lemma summarize_formats_ok: "wf_formats fs \<Longrightarrow> \<exists>r. summarize_formats lim (PList fs) = Inr r"
proof -
  assume "wf_formats fs"
  then obtain st' where "fmt_loop fs ([], []) = Inr st'" using fmt_loop_ok by blast
  then show ?thesis by (simp add: summarize_formats_list)
qed

lemma fmt_loop_append: "fmt_loop (xs @ ys) st = ebind (fmt_loop xs st) (fmt_loop ys)"
proof (induction xs st rule: fmt_loop.induct)
  case (2 kvs fs st)
  then show ?case by (cases "fmt_step kvs st") simp_all
qed simp_all

lemma fmt_loop_nondict: "\<not> is_dict x \<Longrightarrow> fmt_loop (x # ys) = fmt_loop ys"
  by (cases x) (auto simp: fun_eq_iff)

lemma fmt_loop_skip: "\<not> is_dict x \<Longrightarrow> fmt_loop (xs @ x # ys) st = fmt_loop (xs @ ys) st"
  by (simp add: fmt_loop_append fmt_loop_nondict)

lemma summarize_formats_skip:
  "\<not> is_dict x \<Longrightarrow> summarize_formats lim (PList (xs @ x # ys)) = summarize_formats lim (PList (xs @ ys))"
  by (simp add: summarize_formats_list fmt_loop_skip)

lemma fmt_step_falsy_descs:
  "\<not> truthy (dict_get kvs ''descriptions'' (PList [])) \<Longrightarrow>
   fmt_step kvs st = fmt_step ((''descriptions'', PList []) # kvs) st"
  by (simp add: fmt_step_def get_stripped_def dict_get_def py_or_def)

lemma the_strs_all: "list_all is_str xs \<Longrightarrow> \<exists>ss. the_strs xs = Inr ss"
proof (induction xs)
  case Nil
  show ?case by simp
next
  case (Cons x xs)
  then show ?case by (cases x) (auto simp: is_str_def)
qed

lemma pick_list_cases:
  "\<exists>v. pick k (PDict f) (PDict b) (PList []) = Inr v
       \<and> (v = dict_get f k (PList []) \<or> v = dict_get b k (PList []))"
  by (cases f; cases b) (auto simp: pick_def py_or_def dict_get_def split: option.splits)

lemma pick_dicts: "\<exists>v. pick k (PDict f) (PDict b) d = Inr v"
  by (cases f; cases b) (auto simp: pick_def py_or_def dict_get_def split: option.splits)

lemma pick_cases:
  "\<exists>v. pick k (PDict f) (PDict b) d = Inr v
       \<and> (v = dict_get f k PNone \<or> v = dict_get b k PNone \<or> v = d)"
  by (cases f; cases b) (auto simp: pick_def py_or_def dict_get_def split: option.splits)

lemma cleanable_iff: "cleanable lim v = (\<exists>s. clean_text lim v = Inr s)"
  by (cases "clean_text lim v") (simp_all add: cleanable_def)

lemma cleanable_PStr: "cleanable lim (PStr s)"
  by (simp add: cleanable_iff clean_text_PStr)

lemma cleanable_PNone: "cleanable lim PNone"
  by (simp add: cleanable_iff clean_text_def)

lemma pick_cleanable:
  assumes "cleanable lim (dict_get f k PNone)" "cleanable lim (dict_get b k PNone)"
    "cleanable lim d"
  shows "\<exists>v s. pick k (PDict f) (PDict b) d = Inr v \<and> clean_text lim v = Inr s"
  using pick_cases [of k f b d] assms by (auto simp: cleanable_iff)

lemma join_names_ok: "names_ok ''name'' v \<Longrightarrow> \<exists>s. join_names v = Inr s"
  using the_strs_all by (cases v) (fastforce simp: names_ok_def join_names_def)+

lemma py_join_ok: "strs_ok v \<Longrightarrow> \<exists>s. py_join sep (py_or v (PList [])) = Inr s"
  using the_strs_all
  by (cases "py_or v (PList [])") (fastforce simp: strs_ok_def py_join_def)+

lemma catno_ok:
  "(case py_or v (PList []) of PList ls \<Rightarrow> list_all is_str (field_of_dicts ''catno'' ls) | _ \<Rightarrow> False)
   \<Longrightarrow> \<exists>s. catno_of v = Inr s"
  using the_strs_all
  by (cases "py_or v (PList [])") (fastforce simp: catno_of_def)+

lemma formats_ok:
  "(case v of PList fs \<Rightarrow> wf_formats fs | _ \<Rightarrow> True) \<Longrightarrow> \<exists>fv. summarize_formats lim v = Inr fv"
  using summarize_formats_ok by (cases v) (auto simp: summarize_formats_def)

lemma release_date_of_ok:
  assumes f: "wf_fields lim f" and b: "wf_fields lim b"
  shows "\<exists>rd. release_date_of lim (PDict f) (PDict b) = Inr rd"
proof -
  have "cleanable lim (dict_get f ''released'' PNone)"
    "cleanable lim (dict_get b ''released'' PNone)"
    "cleanable lim (dict_get b ''released_formatted'' PNone)"
    "cleanable lim (dict_get b ''year'' PNone)"
    using f b by (simp_all add: wf_fields_def)
  then show ?thesis
    unfolding release_date_of_dicts cleanable_iff [symmetric]
    by (auto simp: dict_get_def py_or_def split: option.splits)
qed

lemma assemble_row_ok:
  assumes f: "wf_fields lim f" and b: "wf_fields lim b"
    and ci: "cleanable lim (dict_get ci ''date_added'' PNone)"
  shows "\<exists>r. assemble_row lim (PDict ci) (PDict b) rel_id (PDict f) = Inr r"
proof -
  obtain artists where a1: "pick ''artists'' (PDict f) (PDict b) (PList []) = Inr artists"
    and a2: "names_ok ''name'' artists"
    using pick_list_cases [of "''artists''" f b] f b by (auto simp: wf_fields_def)
  obtain labels where l1: "pick ''labels'' (PDict f) (PDict b) (PList []) = Inr labels"
    and l2: "names_ok ''name'' labels"
    and l3: "(case py_or labels (PList []) of
                PList ls \<Rightarrow> list_all is_str (field_of_dicts ''catno'' ls) | _ \<Rightarrow> False)"
    using pick_list_cases [of "''labels''" f b] f b by (auto simp: wf_fields_def)
  obtain formats where f1: "pick ''formats'' (PDict f) (PDict b) (PList []) = Inr formats"
    and f2: "(case formats of PList fs \<Rightarrow> wf_formats fs | _ \<Rightarrow> True)"
    using pick_list_cases [of "''formats''" f b] f b by (auto simp: wf_fields_def)
  obtain gs where g1: "pick ''genres'' (PDict f) (PDict b) (PList []) = Inr gs"
    and g2: "strs_ok gs"
    using pick_list_cases [of "''genres''" f b] f b by (auto simp: wf_fields_def)
  obtain ss where s1: "pick ''styles'' (PDict f) (PDict b) (PList []) = Inr ss"
    and s2: "strs_ok ss"
    using pick_list_cases [of "''styles''" f b] f b by (auto simp: wf_fields_def)
  obtain idf where i: "py_get (py_or (PDict f) (PDict [])) ''identifiers'' (PList []) = Inr idf"
    by (cases f) (auto simp: py_or_def)
  obtain fv where fv: "summarize_formats lim formats = Inr fv" using formats_ok [OF f2] by blast
  obtain mid where m: "pick ''master_id'' (PDict f) (PDict b) PNone = Inr mid"
    using pick_dicts by blast
  obtain a where a: "join_names artists = Inr a" using join_names_ok [OF a2] by blast
  obtain t0 t where t: "pick ''title'' (PDict f) (PDict b) (PStr []) = Inr t0"
    and t': "clean_text lim t0 = Inr t"
    using pick_cleanable [of lim f "''title''" b "PStr []"] f b
    by (auto simp: wf_fields_def cleanable_PStr)
  obtain da where da: "clean_text lim (dict_get ci ''date_added'' PNone) = Inr da"
    using ci by (auto simp: cleanable_iff)
  obtain rd where rd: "release_date_of lim (PDict f) (PDict b) = Inr rd"
    using release_date_of_ok [OF f b] by blast
  obtain c0 c where c: "pick ''country'' (PDict f) (PDict b) (PStr []) = Inr c0"
    and c': "clean_text lim c0 = Inr c"
    using pick_cleanable [of lim f "''country''" b "PStr []"] f b
    by (auto simp: wf_fields_def cleanable_PStr)
  obtain l where l: "join_names labels = Inr l" using join_names_ok [OF l2] by blast
  obtain cn where cn: "catno_of labels = Inr cn" using catno_ok [OF l3] by blast
  obtain g where g: "py_join ''|'' (py_or gs (PList [])) = Inr g"
    using py_join_ok [OF g2] by blast
  obtain s where s: "py_join ''|'' (py_or ss (PList [])) = Inr s"
    using py_join_ok [OF s2] by blast
  show ?thesis
    unfolding assemble_row_def
    by (simp only: a1 l1 f1 g1 s1 i fv m a t t' da rd c c' l cn g s ebind_Inr py_get.simps
        clean_text_PStr) blast
qed

section \<open>The claims\<close>

text \<open>
  C1. The fallback of \<^verbatim>\<open>pick\<close> goes by the truth value of the enriched value, not by
  the presence of the key: on an enriched and a basic record, \<^verbatim>\<open>pick\<close> returns the
  enriched record's value for the key when that value is truthy; when it is falsy (an
  empty string or zero included) or the key is absent, it returns the basic record's
  value for the key if the basic record has the key, and the default otherwise.
\<close>

theorem pick_truthiness:
  "pick k (PDict f) (PDict b) d =
     Inr (if (case map_of f k of Some v \<Rightarrow> truthy v | None \<Rightarrow> False) then the (map_of f k)
          else (case map_of b k of Some w \<Rightarrow> w | None \<Rightarrow> d))"
  by (cases f; cases b) (auto simp: pick_def py_or_def dict_get_def split: option.splits)

theorem pick_truthiness_witness:
  "pick ''country'' (PDict [(''country'', PStr '''')]) (PDict [(''country'', PStr ''UK'')]) PNone
     = Inr (PStr ''UK'')
   \<and> pick ''master_id'' (PDict [(''master_id'', PInt 0)]) (PDict [(''master_id'', PInt 7)]) PNone
     = Inr (PInt 7)
   \<and> pick ''title'' (PDict [(''title'', PStr ''A'')]) (PDict [(''title'', PStr ''B'')]) PNone
     = Inr (PStr ''A'')
   \<and> pick ''title'' (PDict []) (PDict [(''title'', PNone)]) (PStr ''d'') = Inr PNone
   \<and> pick ''title'' (PDict []) (PDict [(''year'', PInt 1)]) (PStr ''d'') = Inr (PStr ''d'')"
  using pick_truthiness [of "''country''" "[(''country'', PStr '''')]" "[(''country'', PStr ''UK'')]" PNone]
    pick_truthiness [of "''master_id''" "[(''master_id'', PInt 0)]" "[(''master_id'', PInt 7)]" PNone]
    pick_truthiness [of "''title''" "[(''title'', PStr ''A'')]" "[(''title'', PStr ''B'')]" PNone]
    pick_truthiness [of "''title''" "[]" "[(''title'', PNone)]" "PStr ''d''"]
    pick_truthiness [of "''title''" "[]" "[(''year'', PInt 1)]" "PStr ''d''"]
  by simp

text \<open>
  C2. A failed detail fetch is transparent: the row built from the full record that
  holds only the failure marker is the row built from the empty full record, for every
  item, and so is the outcome when building the row raises. Hence a turn of the loop,
  and a whole run, in which every detail fetch fails with \<^verbatim>\<open>HTTPError\<close> gives what
  it gives with the detail fetch switched off.
\<close>

theorem fetch_failure_transparent:
  "assemble_row lim ci basic rel_id (PDict [(''_fetch_error'', PStr msg)]) =
     assemble_row lim ci basic rel_id (PDict [])
   \<and> process_item lim True (\<lambda>i. HTTPError (m i)) it = process_item lim False g it
   \<and> fetch_rows lim True (\<lambda>i. HTTPError (m i)) its = fetch_rows lim False g its"
  by (simp add: assemble_row_sentinel process_item_sentinel [where g = g]
      fetch_rows_def fetch_loop_sentinel [where g = g])

text \<open>
  C3, as stated, fails: the \<^verbatim>\<open>format\<close>, \<^verbatim>\<open>catno\<close>, \<^verbatim>\<open>genres\<close> and \<^verbatim>\<open>styles\<close>
  columns are \<^verbatim>\<open>|\<close>-joins that do not go through \<^verbatim>\<open>clean_text\<close>. On the basic record
  below they keep a double space, a tab and a line break.
\<close>

theorem row_fields_counterexample:
  "assemble_row default_limits (PDict [])
     (PDict [(''formats'', PList [PDict [(''name'', PStr ''Vinyl''),
                                         (''descriptions'', PList [PStr ''LP  Album''])]]),
             (''labels'', PList [PDict [(''name'', PStr ''Blue Note''),
                                        (''catno'', PStr [CHR ''A'', CHR 0x09, CHR ''1''])]]),
             (''genres'', PList [PStr ''Hip  Hop'']),
             (''styles'', PList [PStr [CHR ''B'', CHR 0x0A, CHR ''C'']])])
     (PInt 1) (PDict [])
   = Inr \<lparr> release_id = PInt 1, master_id = PNone, artist = PStr [], title = PStr [],
           date_added = PStr [], variant = PStr [], format = PStr ''Vinyl LP  Album'',
           release_date = PStr [], country = PStr [], label = PStr ''Blue Note'',
           catno = PStr [CHR ''A'', CHR 0x09, CHR ''1''], genres = PStr ''Hip  Hop'',
           styles = PStr [CHR ''B'', CHR 0x0A, CHR ''C''] \<rparr>
   \<and> \<not> clean_field (PStr ''Vinyl LP  Album'')
   \<and> \<not> clean_field (PStr [CHR ''A'', CHR 0x09, CHR ''1''])
   \<and> \<not> clean_field (PStr ''Hip  Hop'')
   \<and> \<not> clean_field (PStr [CHR ''B'', CHR 0x0A, CHR ''C''])"
  by code_simp

text \<open>
  C3, amended. In every row that is built, the \<^verbatim>\<open>artist\<close>, \<^verbatim>\<open>title\<close>,
  \<^verbatim>\<open>date_added\<close>, \<^verbatim>\<open>variant\<close>, \<^verbatim>\<open>release_date\<close>, \<^verbatim>\<open>country\<close> and \<^verbatim>\<open>label\<close>
  columns are single-line, whitespace-normalized strings; the \<^verbatim>\<open>format\<close>, \<^verbatim>\<open>catno\<close>,
  \<^verbatim>\<open>genres\<close> and \<^verbatim>\<open>styles\<close> columns are strings; none of the eleven is \<^verbatim>\<open>None\<close>.
\<close>

theorem row_text_fields:
  "assemble_row lim ci basic rel_id full = Inr r \<Longrightarrow>
     clean_field (artist r) \<and> clean_field (title r) \<and> clean_field (date_added r)
     \<and> clean_field (variant r) \<and> clean_field (release_date r) \<and> clean_field (country r)
     \<and> clean_field (label r)
     \<and> is_str (format r) \<and> is_str (catno r) \<and> is_str (genres r) \<and> is_str (styles r)"
  by (auto simp: assemble_row_def ebind_eq_Inr clean_field_def is_str_def
      dest: clean_text_normalized release_date_of_normalized summarize_formats_variant)

theorem row_text_fields_witness:
  "assemble_row default_limits (PDict [(''date_added'', PStr ''2020-01-01'')])
     (PDict [(''title'', PStr '' Album  B ''), (''genres'', PList [PStr ''Rock''])])
     (PInt 2) (PDict [])
   = Inr \<lparr> release_id = PInt 2, master_id = PNone, artist = PStr [], title = PStr ''Album B'',
           date_added = PStr ''2020-01-01'', variant = PStr [], format = PStr [],
           release_date = PStr [], country = PStr [], label = PStr [],
           catno = PStr [], genres = PStr ''Rock'', styles = PStr [] \<rparr>
   \<and> clean_field (PStr ''Album B'') \<and> clean_field (PStr ''2020-01-01'')
   \<and> clean_field (PStr []) \<and> is_str (PStr ''Rock'')"
proof -
  have e: "assemble_row default_limits (PDict [(''date_added'', PStr ''2020-01-01'')])
     (PDict [(''title'', PStr '' Album  B ''), (''genres'', PList [PStr ''Rock''])])
     (PInt 2) (PDict [])
   = Inr \<lparr> release_id = PInt 2, master_id = PNone, artist = PStr [], title = PStr ''Album B'',
           date_added = PStr ''2020-01-01'', variant = PStr [], format = PStr [],
           release_date = PStr [], country = PStr [], label = PStr [],
           catno = PStr [], genres = PStr ''Rock'', styles = PStr [] \<rparr>"
    by code_simp
  from row_text_fields [OF e] e show ?thesis
    by simp
qed

text \<open>
  C4, as stated, fails: \<^verbatim>\<open>pick\<close> takes the default only when the basic record has no
  \<^verbatim>\<open>released\<close> key. A basic record with an empty \<^verbatim>\<open>released\<close> and a
  \<^verbatim>\<open>released_formatted\<close> of 2020 gets the empty release date, not 2020.
\<close>

theorem release_date_counterexample:
  "release_date_of default_limits (PDict [])
     (PDict [(''released'', PStr ''''), (''released_formatted'', PStr ''2020'')]) = Inr ''''
   \<and> release_date_claimed default_limits []
        [(''released'', PStr ''''), (''released_formatted'', PStr ''2020'')] = Inr ''2020''
   \<and> release_date_of default_limits (PDict [])
        (PDict [(''released'', PStr ''''), (''released_formatted'', PStr ''2020'')])
     \<noteq> release_date_claimed default_limits []
          [(''released'', PStr ''''), (''released_formatted'', PStr ''2020'')]"
  by code_simp

text \<open>
  C4, amended. On a full and a basic record, the release date is \<^verbatim>\<open>clean_text\<close> of: the
  full record's \<^verbatim>\<open>released\<close> if truthy; otherwise the basic record's \<^verbatim>\<open>released\<close>
  if the basic record has that key, whatever its value; otherwise the basic record's
  \<^verbatim>\<open>released_formatted\<close> if truthy; otherwise its \<^verbatim>\<open>year\<close>. This is the
  \<^verbatim>\<open>release_date\<close> column of the row.
\<close>

theorem release_date_chain:
  "release_date_of lim (PDict f) (PDict b) =
     clean_text lim
       (if truthy (dict_get f ''released'' PNone) then dict_get f ''released'' PNone
        else (case map_of b ''released'' of
                Some w \<Rightarrow> w
              | None \<Rightarrow> py_or (dict_get b ''released_formatted'' PNone)
                              (dict_get b ''year'' PNone)))
   \<and> (assemble_row lim ci (PDict b) rel_id (PDict f) = Inr r \<longrightarrow>
        (\<exists>s. clean_text lim
               (if truthy (dict_get f ''released'' PNone) then dict_get f ''released'' PNone
                else (case map_of b ''released'' of
                        Some w \<Rightarrow> w
                      | None \<Rightarrow> py_or (dict_get b ''released_formatted'' PNone)
                                      (dict_get b ''year'' PNone))) = Inr s
             \<and> release_date r = PStr s))"
proof (intro conjI impI)
  show "release_date_of lim (PDict f) (PDict b) =
     clean_text lim
       (if truthy (dict_get f ''released'' PNone) then dict_get f ''released'' PNone
        else (case map_of b ''released'' of
                Some w \<Rightarrow> w
              | None \<Rightarrow> py_or (dict_get b ''released_formatted'' PNone)
                              (dict_get b ''year'' PNone)))"
    by (rule release_date_of_dicts)
next
  assume "assemble_row lim ci (PDict b) rel_id (PDict f) = Inr r"
  then obtain rd where "release_date_of lim (PDict f) (PDict b) = Inr rd"
    and "release_date r = PStr rd"
    by (auto simp: assemble_row_def ebind_eq_Inr)
  then show "\<exists>s. clean_text lim
               (if truthy (dict_get f ''released'' PNone) then dict_get f ''released'' PNone
                else (case map_of b ''released'' of
                        Some w \<Rightarrow> w
                      | None \<Rightarrow> py_or (dict_get b ''released_formatted'' PNone)
                                      (dict_get b ''year'' PNone))) = Inr s
             \<and> release_date r = PStr s"
    by (simp add: release_date_of_dicts)
qed

theorem release_date_chain_witness:
  "assemble_row default_limits (PDict [])
     (PDict [(''released_formatted'', PStr ''2020''), (''year'', PInt 1999)])
     (PInt 1) (PDict [(''released'', PStr '''')])
   = Inr \<lparr> release_id = PInt 1, master_id = PNone, artist = PStr [], title = PStr [],
           date_added = PStr [], variant = PStr [], format = PStr [],
           release_date = PStr ''2020'', country = PStr [], label = PStr [],
           catno = PStr [], genres = PStr [], styles = PStr [] \<rparr>
   \<and> release_date_of default_limits (PDict [(''released'', PStr '''')])
        (PDict [(''released_formatted'', PStr ''2020''), (''year'', PInt 1999)]) = Inr ''2020''
   \<and> release_date_of default_limits (PDict []) (PDict [(''year'', PInt 1999)]) = Inr ''1999''"
proof -
  have e: "assemble_row default_limits (PDict [])
     (PDict [(''released_formatted'', PStr ''2020''), (''year'', PInt 1999)])
     (PInt 1) (PDict [(''released'', PStr '''')])
   = Inr \<lparr> release_id = PInt 1, master_id = PNone, artist = PStr [], title = PStr [],
           date_added = PStr [], variant = PStr [], format = PStr [],
           release_date = PStr ''2020'', country = PStr [], label = PStr [],
           catno = PStr [], genres = PStr [], styles = PStr [] \<rparr>"
    by code_simp
  have c1: "clean_text default_limits (PStr ''2020'') = Inr ''2020''" by code_simp
  have c2: "clean_text default_limits (PInt 1999) = Inr ''1999''" by code_simp
  show ?thesis
    using e
      release_date_chain [of default_limits "[(''released'', PStr '''')]"
        "[(''released_formatted'', PStr ''2020''), (''year'', PInt 1999)]" "PDict []" "PInt 1"]
      release_date_chain [of default_limits "[]" "[(''year'', PInt 1999)]" "PDict []" "PInt 1"]
    by (simp add: dict_get_def py_or_def c1 c2)
qed

text \<open>
  C5, as stated, fails: a truthy release identity does not always give a row. The item
  below has the release id 9 and a format entry whose name is the number 5; building its
  row raises \<^verbatim>\<open>AttributeError\<close>, which nothing catches, so the run returns no rows at
  all, although no item of the listing is skipped.
\<close>

theorem row_iff_identity_counterexample:
  "identity_of
      \<lparr>item_data = Some (PDict [(''basic_information'',
          PDict [(''formats'', PList [PDict [(''name'', PInt 5)]])])]),
        item_release_id = Some (PInt 9)\<rparr> = PInt 9
   \<and> has_identity
      \<lparr>item_data = Some (PDict [(''basic_information'',
          PDict [(''formats'', PList [PDict [(''name'', PInt 5)]])])]),
        item_release_id = Some (PInt 9)\<rparr>
   \<and> process_item default_limits False (\<lambda>i. HTTPError [])
      \<lparr>item_data = Some (PDict [(''basic_information'',
          PDict [(''formats'', PList [PDict [(''name'', PInt 5)]])])]),
        item_release_id = Some (PInt 9)\<rparr> = Inl AttributeError
   \<and> fetch_rows default_limits False (\<lambda>i. HTTPError [])
     [\<lparr>item_data = None, item_release_id = Some (PInt 1)\<rparr>,
      \<lparr>item_data = Some (PDict [(''basic_information'',
          PDict [(''formats'', PList [PDict [(''name'', PInt 5)]])])]),
        item_release_id = Some (PInt 9)\<rparr>] = Inl AttributeError
   \<and> length (filter (\<lambda>it. \<not> has_identity it)
     [\<lparr>item_data = None, item_release_id = Some (PInt 1)\<rparr>,
      \<lparr>item_data = Some (PDict [(''basic_information'',
          PDict [(''formats'', PList [PDict [(''name'', PInt 5)]])])]),
        item_release_id = Some (PInt 9)\<rparr>]) = 0"
  by code_simp

text \<open>
  C5, amended. A turn of the loop on an item whose release identity is read as
  \<open>rel_id\<close> (the item's own release id if truthy, else the basic record's \<^verbatim>\<open>id\<close>)
  skips the item, with no row and no exception, exactly when \<open>rel_id\<close> is falsy. When
  \<open>rel_id\<close> is truthy the turn gives a row unless the detail fetch or the building of
  the row raises; it gives one when the records are well formed. A row is built only for
  an item with a truthy identity, and carries it. An exception in a turn ends the run
  without rows. A run that returns gives the rows of the items with a truthy identity, in
  listing order, so their number is the number of items minus the number of skipped ones.
\<close>

theorem row_iff_identity:
  "(item_identity it = Inr (ci, basic, rel_id) \<longrightarrow>
      (process_item lim inc fetch it = Inr None) = (\<not> truthy rel_id))
   \<and> (item_identity it = Inr (PDict c, PDict b, rel_id) \<and> truthy rel_id
        \<and> fetch_full inc fetch rel_id = Inr (PDict f)
        \<and> wf_fields lim b \<and> wf_fields lim f
        \<and> cleanable lim (dict_get c ''date_added'' PNone) \<longrightarrow>
        (\<exists>rw. process_item lim inc fetch it = Inr (Some rw)))
   \<and> (process_item lim inc fetch it = Inr (Some r) \<longrightarrow>
        has_identity it \<and> release_id r = identity_of it)
   \<and> (process_item lim inc fetch it = Inl e \<longrightarrow>
        (\<exists>e'. fetch_rows lim inc fetch (pre @ it # post) = Inl e'))
   \<and> (fetch_rows lim inc fetch its = Inr out \<longrightarrow>
        map release_id out = map identity_of (filter has_identity its)
        \<and> length out = length its - length (filter (\<lambda>it. \<not> has_identity it) its))"
proof (intro conjI impI)
  assume "item_identity it = Inr (ci, basic, rel_id)"
  then show "(process_item lim inc fetch it = Inr None) = (\<not> truthy rel_id)"
    using process_item_skip process_item_keep by blast
next
  assume a: "item_identity it = Inr (PDict c, PDict b, rel_id) \<and> truthy rel_id
        \<and> fetch_full inc fetch rel_id = Inr (PDict f)
        \<and> wf_fields lim b \<and> wf_fields lim f
        \<and> cleanable lim (dict_get c ''date_added'' PNone)"
  then obtain rw where "assemble_row lim (PDict c) (PDict b) rel_id (PDict f) = Inr rw"
    using assemble_row_ok by blast
  with a show "\<exists>rw. process_item lim inc fetch it = Inr (Some rw)"
    by (simp add: process_item_def)
next
  assume "process_item lim inc fetch it = Inr (Some r)"
  then show "has_identity it" "release_id r = identity_of it"
    by (simp_all add: process_item_Some)
next
  assume "process_item lim inc fetch it = Inl e"
  then show "\<exists>e'. fetch_rows lim inc fetch (pre @ it # post) = Inl e'"
    unfolding fetch_rows_def by (rule fetch_loop_raises)
next
  assume a: "fetch_rows lim inc fetch its = Inr out"
  then show "map release_id out = map identity_of (filter has_identity its)"
    using fetch_loop_ids [of lim inc fetch its "[]" out] by (simp add: fetch_rows_def)
  from a show "length out = length its - length (filter (\<lambda>it. \<not> has_identity it) its)"
    by (rule fetch_rows_count)
qed

theorem row_iff_identity_witness:
  "fetch_rows default_limits False (\<lambda>i. HTTPError [])
     [\<lparr>item_data = None, item_release_id = Some (PInt 1)\<rparr>,
      \<lparr>item_data = Some (PDict []), item_release_id = None\<rparr>,
      \<lparr>item_data = Some (PDict [(''basic_information'', PDict [(''id'', PInt 2)])]),
        item_release_id = None\<rparr>]
   = Inr [\<lparr> release_id = PInt 1, master_id = PNone, artist = PStr [], title = PStr [],
             date_added = PStr [], variant = PStr [], format = PStr [],
             release_date = PStr [], country = PStr [], label = PStr [],
             catno = PStr [], genres = PStr [], styles = PStr [] \<rparr>,
          \<lparr> release_id = PInt 2, master_id = PNone, artist = PStr [], title = PStr [],
             date_added = PStr [], variant = PStr [], format = PStr [],
             release_date = PStr [], country = PStr [], label = PStr [],
             catno = PStr [], genres = PStr [], styles = PStr [] \<rparr>]
   \<and> item_identity \<lparr>item_data = Some (PDict []), item_release_id = None\<rparr>
       = Inr (PDict [], PDict [], PNone)
   \<and> process_item default_limits False (\<lambda>i. HTTPError []) \<lparr>item_data = Some (PDict []), item_release_id = None\<rparr>
       = Inr None
   \<and> process_item default_limits False (\<lambda>i. HTTPError []) \<lparr>item_data = None, item_release_id = Some (PInt 1)\<rparr>
       = Inr (Some \<lparr> release_id = PInt 1, master_id = PNone, artist = PStr [], title = PStr [],
             date_added = PStr [], variant = PStr [], format = PStr [],
             release_date = PStr [], country = PStr [], label = PStr [],
             catno = PStr [], genres = PStr [], styles = PStr [] \<rparr>)
   \<and> has_identity \<lparr>item_data = None, item_release_id = Some (PInt 1)\<rparr>
   \<and> item_identity \<lparr>item_data = None, item_release_id = Some (PInt 1)\<rparr>
       = Inr (PDict [], PDict [], PInt 1)
   \<and> truthy (PInt 1) \<and> fetch_full False (\<lambda>i. HTTPError []) (PInt 1) = Inr (PDict [])
   \<and> wf_fields default_limits []
   \<and> cleanable default_limits (dict_get [] ''date_added'' PNone)
   \<and> (\<exists>rw. process_item default_limits False (\<lambda>i. HTTPError [])
          \<lparr>item_data = None, item_release_id = Some (PInt 1)\<rparr> = Inr (Some rw))
   \<and> process_item default_limits False (\<lambda>i. HTTPError [])
      \<lparr>item_data = Some (PDict [(''basic_information'',
          PDict [(''formats'', PList [PDict [(''name'', PInt 5)]])])]),
        item_release_id = Some (PInt 9)\<rparr> = Inl AttributeError
   \<and> (\<exists>e'. fetch_rows default_limits False (\<lambda>i. HTTPError [])
     [\<lparr>item_data = None, item_release_id = Some (PInt 1)\<rparr>,
      \<lparr>item_data = Some (PDict [(''basic_information'',
          PDict [(''formats'', PList [PDict [(''name'', PInt 5)]])])]),
        item_release_id = Some (PInt 9)\<rparr>] = Inl e')
   \<and> length (filter (\<lambda>it. \<not> has_identity it)
        [\<lparr>item_data = None, item_release_id = Some (PInt 1)\<rparr>,
         \<lparr>item_data = Some (PDict []), item_release_id = None\<rparr>,
         \<lparr>item_data = Some (PDict [(''basic_information'', PDict [(''id'', PInt 2)])]),
        item_release_id = None\<rparr>]) = 1"
proof -
  have run: "fetch_rows default_limits False (\<lambda>i. HTTPError [])
     [\<lparr>item_data = None, item_release_id = Some (PInt 1)\<rparr>,
      \<lparr>item_data = Some (PDict []), item_release_id = None\<rparr>,
      \<lparr>item_data = Some (PDict [(''basic_information'', PDict [(''id'', PInt 2)])]),
        item_release_id = None\<rparr>]
   = Inr [\<lparr> release_id = PInt 1, master_id = PNone, artist = PStr [], title = PStr [],
             date_added = PStr [], variant = PStr [], format = PStr [],
             release_date = PStr [], country = PStr [], label = PStr [],
             catno = PStr [], genres = PStr [], styles = PStr [] \<rparr>,
          \<lparr> release_id = PInt 2, master_id = PNone, artist = PStr [], title = PStr [],
             date_added = PStr [], variant = PStr [], format = PStr [],
             release_date = PStr [], country = PStr [], label = PStr [],
             catno = PStr [], genres = PStr [], styles = PStr [] \<rparr>]"
    by code_simp
  have idn: "item_identity \<lparr>item_data = Some (PDict []), item_release_id = None\<rparr>
       = Inr (PDict [], PDict [], PNone)"
    by code_simp
  have one: "process_item default_limits False (\<lambda>i. HTTPError []) \<lparr>item_data = None, item_release_id = Some (PInt 1)\<rparr>
       = Inr (Some \<lparr> release_id = PInt 1, master_id = PNone, artist = PStr [], title = PStr [],
             date_added = PStr [], variant = PStr [], format = PStr [],
             release_date = PStr [], country = PStr [], label = PStr [],
             catno = PStr [], genres = PStr [], styles = PStr [] \<rparr>)"
    by code_simp
  have skipped: "length (filter (\<lambda>it. \<not> has_identity it)
        [\<lparr>item_data = None, item_release_id = Some (PInt 1)\<rparr>,
         \<lparr>item_data = Some (PDict []), item_release_id = None\<rparr>,
         \<lparr>item_data = Some (PDict [(''basic_information'', PDict [(''id'', PInt 2)])]),
        item_release_id = None\<rparr>]) = 1"
    by code_simp
  have nt: "\<not> truthy PNone"
    by simp
  have idn1: "item_identity \<lparr>item_data = None, item_release_id = Some (PInt 1)\<rparr>
       = Inr (PDict [], PDict [], PInt 1)"
    by code_simp
  have tr: "truthy (PInt 1)"
    by simp
  have ff: "fetch_full False (\<lambda>i. HTTPError []) (PInt 1) = Inr (PDict [])"
    by (simp add: fetch_full_def)
  have wf: "wf_fields default_limits []"
    by code_simp
  have cl: "cleanable default_limits (dict_get [] ''date_added'' PNone)"
    by code_simp
  have bad: "process_item default_limits False (\<lambda>i. HTTPError [])
      \<lparr>item_data = Some (PDict [(''basic_information'',
          PDict [(''formats'', PList [PDict [(''name'', PInt 5)]])])]),
        item_release_id = Some (PInt 9)\<rparr> = Inl AttributeError"
    by code_simp
  from row_iff_identity [where it = "\<lparr>item_data = None, item_release_id = Some (PInt 1)\<rparr>"
      and rel_id = "PInt 1" and lim = default_limits and inc = False and fetch = "(\<lambda>i. HTTPError [])"
      and c = "[]" and b = "[]" and f = "[]"] idn1 tr ff wf cl
  have ex: "\<exists>rw. process_item default_limits False (\<lambda>i. HTTPError [])
          \<lparr>item_data = None, item_release_id = Some (PInt 1)\<rparr> = Inr (Some rw)"
    by blast
  from row_iff_identity [where it = "\<lparr>item_data = Some (PDict []), item_release_id = None\<rparr>"
      and ci = "PDict []" and basic = "PDict []" and rel_id = PNone and lim = default_limits
      and inc = False and fetch = "(\<lambda>i. HTTPError [])"] idn nt
  have skip: "process_item default_limits False (\<lambda>i. HTTPError []) \<lparr>item_data = Some (PDict []), item_release_id = None\<rparr>
       = Inr None"
    by blast
  from row_iff_identity [where it = "\<lparr>item_data = None, item_release_id = Some (PInt 1)\<rparr>"
      and lim = default_limits and inc = False and fetch = "(\<lambda>i. HTTPError [])"] one
  have has: "has_identity \<lparr>item_data = None, item_release_id = Some (PInt 1)\<rparr>"
    by blast
  from row_iff_identity [where it = "\<lparr>item_data = Some (PDict [(''basic_information'',
          PDict [(''formats'', PList [PDict [(''name'', PInt 5)]])])]),
        item_release_id = Some (PInt 9)\<rparr>"
      and lim = default_limits and inc = False and fetch = "(\<lambda>i. HTTPError [])"
      and e = AttributeError and pre = "[\<lparr>item_data = None, item_release_id = Some (PInt 1)\<rparr>]" and post = "[]"] bad
  have "\<exists>e'. fetch_rows default_limits False (\<lambda>i. HTTPError [])
     ([\<lparr>item_data = None, item_release_id = Some (PInt 1)\<rparr>] @
      \<lparr>item_data = Some (PDict [(''basic_information'',
          PDict [(''formats'', PList [PDict [(''name'', PInt 5)]])])]),
        item_release_id = Some (PInt 9)\<rparr> # []) = Inl e'"
    by blast
  then have ab: "\<exists>e'. fetch_rows default_limits False (\<lambda>i. HTTPError [])
     [\<lparr>item_data = None, item_release_id = Some (PInt 1)\<rparr>,
      \<lparr>item_data = Some (PDict [(''basic_information'',
          PDict [(''formats'', PList [PDict [(''name'', PInt 5)]])])]),
        item_release_id = Some (PInt 9)\<rparr>] = Inl e'"
    by simp
  show ?thesis
    using run idn skip one has idn1 tr ff wf cl ex bad ab skipped by blast
qed

text \<open>
  C6. The variant of a list of format entries is the \<^verbatim>\<open>|\<close>-join of the collected
  variant bits, deduplicated keeping first occurrences in order, passed through
  \<^verbatim>\<open>clean_text\<close>; an input whose collected bits are Red, Limited, Red has the variant
  \<^verbatim>\<open>Red|Limited\<close>; an input that is not a list gives two empty strings.
\<close>

theorem variant_dedup:
  "summarize_formats lim (PList fs) =
     ebind (fmt_loop fs ([], [])) (\<lambda>st.
       ebind (clean_text lim (PStr (join ''|'' (first_occurrences (snd st)))))
         (\<lambda>v. Inr (join ''|'' (fst st), v)))
   \<and> (fmt_loop fs ([], []) = Inr (parts, [''Red'', ''Limited'', ''Red''])
        \<longrightarrow> summarize_formats lim (PList fs) = Inr (join ''|'' parts, ''Red|Limited''))
   \<and> (\<not> is_list v \<longrightarrow> summarize_formats lim v = Inr ([], []))"
proof (intro conjI impI)
  show "summarize_formats lim (PList fs) =
     ebind (fmt_loop fs ([], [])) (\<lambda>st.
       ebind (clean_text lim (PStr (join ''|'' (first_occurrences (snd st)))))
         (\<lambda>v. Inr (join ''|'' (fst st), v)))"
    by (simp add: summarize_formats_list clean_text_PStr)
next
  assume "fmt_loop fs ([], []) = Inr (parts, [''Red'', ''Limited'', ''Red''])"
  then show "summarize_formats lim (PList fs) = Inr (join ''|'' parts, ''Red|Limited'')"
    by (simp add: summarize_formats_list first_occurrences_red clean_str_red_limited)
next
  assume "\<not> is_list v"
  then show "summarize_formats lim v = Inr ([], [])"
    by (cases v) (simp_all add: summarize_formats_def)
qed

theorem variant_dedup_witness:
  "fmt_loop [PDict [(''text'', PStr ''Red'')], PDict [(''text'', PStr ''Limited'')],
             PDict [(''text'', PStr ''Red'')]] ([], [])
     = Inr ([''(Red)'', ''(Limited)'', ''(Red)''], [''Red'', ''Limited'', ''Red''])
   \<and> summarize_formats default_limits (PList [PDict [(''text'', PStr ''Red'')],
        PDict [(''text'', PStr ''Limited'')], PDict [(''text'', PStr ''Red'')]])
     = Inr (''(Red)|(Limited)|(Red)'', ''Red|Limited'')
   \<and> \<not> is_list (PStr ''Vinyl'') \<and> summarize_formats default_limits (PStr ''Vinyl'') = Inr ([], [])"
proof -
  have h: "fmt_loop [PDict [(''text'', PStr ''Red'')], PDict [(''text'', PStr ''Limited'')],
             PDict [(''text'', PStr ''Red'')]] ([], [])
     = Inr ([''(Red)'', ''(Limited)'', ''(Red)''], [''Red'', ''Limited'', ''Red''])"
    by code_simp
  have nl: "\<not> is_list (PStr ''Vinyl'')"
    by simp
  note t = variant_dedup [of default_limits "[PDict [(''text'', PStr ''Red'')],
       PDict [(''text'', PStr ''Limited'')], PDict [(''text'', PStr ''Red'')]]"
       "[''(Red)'', ''(Limited)'', ''(Red)'']" "PStr ''Vinyl''"]
  have j: "join ''|'' [''(Red)'', ''(Limited)'', ''(Red)''] = ''(Red)|(Limited)|(Red)''"
    by simp
  from t h have r1: "summarize_formats default_limits (PList [PDict [(''text'', PStr ''Red'')],
        PDict [(''text'', PStr ''Limited'')], PDict [(''text'', PStr ''Red'')]])
     = Inr (join ''|'' [''(Red)'', ''(Limited)'', ''(Red)''], ''Red|Limited'')"
    by blast
  from t nl have r2: "summarize_formats default_limits (PStr ''Vinyl'') = Inr ([], [])"
    by blast
  show ?thesis
    using h r1 [unfolded j] nl r2 by blast
qed

text \<open>
  C7, as stated, fails: the code also trims the piece after each step. An entry with only
  the text Red has the piece \<^verbatim>\<open>(Red)\<close>, where the wording gives it a leading space; a
  description with a trailing space loses it at the end of the piece.
\<close>

theorem summary_piece_counterexample:
  "fmt_step [(''text'', PStr ''Red'')] ([], []) = Inr ([''(Red)''], [''Red''])
   \<and> piece_claimed [] [] ''Red'' [] = '' (Red)''
   \<and> fmt_step [(''name'', PStr ''Vinyl''), (''descriptions'', PList [PStr ''LP ''])] ([], [])
       = Inr ([''Vinyl LP''], [])
   \<and> piece_claimed ''Vinyl'' [''LP ''] [] [] = ''Vinyl LP ''"
  by code_simp

text \<open>
  C7, amended. For every format entry on which the code does not raise, the summary piece
  is: the trimmed name followed by each non-empty description, space-joined and trimmed;
  then \<^verbatim>\<open>(text)\<close> for a non-empty trimmed text and \<^verbatim>\<open>x{qty}\<close> for a non-empty trimmed
  quantity, each set off by one space from what precedes it when that is not empty; an
  empty piece is discarded. The code does not raise exactly when the name, the quantity
  and the text can be trimmed and the descriptions can be iterated and have only items
  that are strings or falsy. The entry with name Vinyl, quantity 1, text Red and
  descriptions LP, Album has the piece \<^verbatim>\<open>Vinyl LP Album (Red) x1\<close>.
\<close>

theorem summary_piece:
  "(get_stripped kvs ''name'' = Inr nm \<and> get_stripped kvs ''qty'' = Inr qty
      \<and> get_stripped kvs ''text'' = Inr txt
      \<and> py_iter (py_or (dict_get kvs ''descriptions'' (PList [])) (PList [])) = Inr ds
      \<and> list_all str_or_falsy ds
    \<longrightarrow> (\<exists>bits'. fmt_step kvs (parts, bits) =
           Inr (if piece_trimmed nm (desc_strings ds) txt qty \<noteq> []
                then parts @ [piece_trimmed nm (desc_strings ds) txt qty] else parts, bits')))
   \<and> (fmt_step kvs (parts, bits) = Inr (parts', bits2)
    \<longrightarrow> (\<exists>n q t xs.
           get_stripped kvs ''name'' = Inr n \<and> get_stripped kvs ''qty'' = Inr q
           \<and> get_stripped kvs ''text'' = Inr t
           \<and> py_iter (py_or (dict_get kvs ''descriptions'' (PList [])) (PList [])) = Inr xs
           \<and> list_all str_or_falsy xs
           \<and> parts' = (if piece_trimmed n (desc_strings xs) t q \<noteq> []
                        then parts @ [piece_trimmed n (desc_strings xs) t q] else parts)))
   \<and> summarize_formats lim (PList [PDict [(''name'', PStr ''Vinyl''), (''qty'', PStr ''1''),
        (''text'', PStr ''Red''), (''descriptions'', PList [PStr ''LP'', PStr ''Album''])]])
     = Inr (''Vinyl LP Album (Red) x1'', ''Red'')"
proof (intro conjI impI)
  assume "get_stripped kvs ''name'' = Inr nm \<and> get_stripped kvs ''qty'' = Inr qty
      \<and> get_stripped kvs ''text'' = Inr txt
      \<and> py_iter (py_or (dict_get kvs ''descriptions'' (PList [])) (PList [])) = Inr ds
      \<and> list_all str_or_falsy ds"
  then show "\<exists>bits'. fmt_step kvs (parts, bits) =
           Inr (if piece_trimmed nm (desc_strings ds) txt qty \<noteq> []
                then parts @ [piece_trimmed nm (desc_strings ds) txt qty] else parts, bits')"
    using fmt_step_piece by blast
next
  assume "fmt_step kvs (parts, bits) = Inr (parts', bits2)"
  then show "\<exists>n q t xs.
           get_stripped kvs ''name'' = Inr n \<and> get_stripped kvs ''qty'' = Inr q
           \<and> get_stripped kvs ''text'' = Inr t
           \<and> py_iter (py_or (dict_get kvs ''descriptions'' (PList [])) (PList [])) = Inr xs
           \<and> list_all str_or_falsy xs
           \<and> parts' = (if piece_trimmed n (desc_strings xs) t q \<noteq> []
                        then parts @ [piece_trimmed n (desc_strings xs) t q] else parts)"
    by (rule fmt_step_returns)
next
  have l: "fmt_loop [PDict [(''name'', PStr ''Vinyl''), (''qty'', PStr ''1''),
        (''text'', PStr ''Red''), (''descriptions'', PList [PStr ''LP'', PStr ''Album''])]]
        ([], []) = Inr ([''Vinyl LP Album (Red) x1''], [''Red''])"
    by code_simp
  have f: "first_occurrences [''Red''] = [''Red'']"
    by code_simp
  have c: "clean_str ''Red'' = ''Red''"
    by code_simp
  show "summarize_formats lim (PList [PDict [(''name'', PStr ''Vinyl''), (''qty'', PStr ''1''),
        (''text'', PStr ''Red''), (''descriptions'', PList [PStr ''LP'', PStr ''Album''])]])
     = Inr (''Vinyl LP Album (Red) x1'', ''Red'')"
    unfolding summarize_formats_list l by (simp add: f c)
qed

theorem summary_piece_witness:
  "get_stripped [(''name'', PStr '' Vinyl''), (''qty'', PStr ''2''),
      (''descriptions'', PList [PStr ''LP'', PNone, PStr ''Reissue''])] ''name'' = Inr ''Vinyl''
   \<and> list_all str_or_falsy [PStr ''LP'', PNone, PStr ''Reissue'']
   \<and> piece_trimmed ''Vinyl'' (desc_strings [PStr ''LP'', PNone, PStr ''Reissue'']) [] ''2''
       = ''Vinyl LP Reissue x2''
   \<and> fmt_step [(''name'', PStr '' Vinyl''), (''qty'', PStr ''2''),
      (''descriptions'', PList [PStr ''LP'', PNone, PStr ''Reissue''])] ([''CD''], [])
        = Inr ([''CD'', ''Vinyl LP Reissue x2''], [''Reissue''])
   \<and> (\<exists>n q t xs.
         get_stripped [(''name'', PStr '' Vinyl''), (''qty'', PStr ''2''),
           (''descriptions'', PList [PStr ''LP'', PNone, PStr ''Reissue''])] ''name'' = Inr n
         \<and> list_all str_or_falsy xs
         \<and> [''CD'', ''Vinyl LP Reissue x2'']
             = (if piece_trimmed n (desc_strings xs) t q \<noteq> []
                then [''CD''] @ [piece_trimmed n (desc_strings xs) t q] else [''CD'']))"
proof -
  let ?e = "[(''name'', PStr '' Vinyl''), (''qty'', PStr ''2''),
      (''descriptions'', PList [PStr ''LP'', PNone, PStr ''Reissue''])]"
  let ?ds = "[PStr ''LP'', PNone, PStr ''Reissue'']"
  have n: "get_stripped ?e ''name'' = Inr ''Vinyl''" by code_simp
  have q: "get_stripped ?e ''qty'' = Inr ''2''" by code_simp
  have t: "get_stripped ?e ''text'' = Inr []" by code_simp
  have d: "py_iter (py_or (dict_get ?e ''descriptions'' (PList [])) (PList [])) = Inr ?ds"
    by code_simp
  have a: "list_all str_or_falsy ?ds" by code_simp
  have p: "piece_trimmed ''Vinyl'' (desc_strings ?ds) [] ''2'' = ''Vinyl LP Reissue x2''"
    by code_simp
  have s: "fmt_step ?e ([''CD''], []) = Inr ([''CD'', ''Vinyl LP Reissue x2''], [''Reissue''])"
    by code_simp
  note th = summary_piece [of ?e "''Vinyl''" "''2''" "[]" ?ds "[''CD'']" "[]"
      "[''CD'', ''Vinyl LP Reissue x2'']" "[''Reissue'']"]
  from th n q t d a
  have "\<exists>bits'. fmt_step ?e ([''CD''], []) =
     Inr (if piece_trimmed ''Vinyl'' (desc_strings ?ds) [] ''2'' \<noteq> []
          then [''CD''] @ [piece_trimmed ''Vinyl'' (desc_strings ?ds) [] ''2''] else [''CD''],
          bits')"
    by blast
  from th s
  have "\<exists>n q t xs.
         get_stripped ?e ''name'' = Inr n \<and> get_stripped ?e ''qty'' = Inr q
         \<and> get_stripped ?e ''text'' = Inr t
         \<and> py_iter (py_or (dict_get ?e ''descriptions'' (PList [])) (PList [])) = Inr xs
         \<and> list_all str_or_falsy xs
         \<and> [''CD'', ''Vinyl LP Reissue x2'']
             = (if piece_trimmed n (desc_strings xs) t q \<noteq> []
                then [''CD''] @ [piece_trimmed n (desc_strings xs) t q] else [''CD''])"
    by blast
  then have r: "\<exists>n q t xs.
         get_stripped ?e ''name'' = Inr n
         \<and> list_all str_or_falsy xs
         \<and> [''CD'', ''Vinyl LP Reissue x2'']
             = (if piece_trimmed n (desc_strings xs) t q \<noteq> []
                then [''CD''] @ [piece_trimmed n (desc_strings xs) t q] else [''CD''])"
    by blast
  show ?thesis
    using n a p s r by blast
qed

text \<open>
  C8, as stated, fails: descriptions that are truthy and not a list are not taken as the
  empty list. A number raises \<^verbatim>\<open>TypeError\<close>, a string is read character by character;
  and a name that is a number raises \<^verbatim>\<open>AttributeError\<close> for the whole list.
\<close>

theorem summarize_formats_counterexample:
  "summarize_formats default_limits
       (PList [PDict [(''name'', PStr ''Vinyl''), (''descriptions'', PInt 5)]])
     = Inl TypeError
   \<and> summarize_formats default_limits
       (PList [PDict [(''name'', PStr ''Vinyl''), (''descriptions'', PStr ''LP'')]])
     = Inr (''Vinyl L P'', [])
   \<and> summarize_formats default_limits
       (PList [PDict [(''name'', PStr ''CD'')], PDict [(''name'', PInt 5)]])
     = Inl AttributeError"
  by code_simp

text \<open>
  C8, amended. \<^verbatim>\<open>summarize_formats\<close> does not raise on a list in which every entry that
  is a dictionary has a name, quantity and text that are falsy or strings, and
  descriptions that are absent, falsy, a string, a dictionary, or a list of items that
  are falsy or strings. Entries that are not dictionaries are skipped one by one, and
  descriptions that are absent or falsy count as the empty list.
\<close>

theorem summarize_formats_total:
  "(wf_formats fs \<longrightarrow> (\<exists>res. summarize_formats lim (PList fs) = Inr res))
   \<and> (\<not> is_dict x \<longrightarrow>
        summarize_formats lim (PList (xs @ x # ys)) = summarize_formats lim (PList (xs @ ys)))
   \<and> (\<not> truthy (dict_get kvs ''descriptions'' (PList [])) \<longrightarrow>
        fmt_step kvs st = fmt_step ((''descriptions'', PList []) # kvs) st)"
  using summarize_formats_ok summarize_formats_skip fmt_step_falsy_descs by blast

theorem summarize_formats_total_witness:
  "wf_formats [PInt 3, PDict [(''name'', PStr ''CD''), (''qty'', PInt 0), (''descriptions'', PNone)]]
   \<and> (\<exists>res. summarize_formats default_limits
         (PList [PInt 3, PDict [(''name'', PStr ''CD''), (''qty'', PInt 0), (''descriptions'', PNone)]])
        = Inr res)
   \<and> \<not> is_dict (PInt 3)
   \<and> summarize_formats default_limits
         (PList [PInt 3, PDict [(''name'', PStr ''CD''), (''qty'', PInt 0), (''descriptions'', PNone)]])
       = summarize_formats default_limits
         (PList [PDict [(''name'', PStr ''CD''), (''qty'', PInt 0), (''descriptions'', PNone)]])
   \<and> \<not> truthy (dict_get [(''name'', PStr ''CD''), (''qty'', PInt 0), (''descriptions'', PNone)]
                  ''descriptions'' (PList []))
   \<and> fmt_step [(''name'', PStr ''CD''), (''qty'', PInt 0), (''descriptions'', PNone)] ([], [])
       = fmt_step [(''descriptions'', PList []), (''name'', PStr ''CD''), (''qty'', PInt 0),
                   (''descriptions'', PNone)] ([], [])"
proof -
  let ?e = "[(''name'', PStr ''CD''), (''qty'', PInt 0), (''descriptions'', PNone)]"
  have w: "wf_formats [PInt 3, PDict ?e]" by code_simp
  have nd: "\<not> is_dict (PInt 3)" by simp
  have nt: "\<not> truthy (dict_get ?e ''descriptions'' (PList []))" by code_simp
  note t = summarize_formats_total [of "[PInt 3, PDict ?e]" default_limits "PInt 3" "[]" "[PDict ?e]" ?e "([], [])"]
  from t w have a: "\<exists>res. summarize_formats default_limits (PList [PInt 3, PDict ?e]) = Inr res" by blast
  from t nd have b: "summarize_formats default_limits (PList ([] @ PInt 3 # [PDict ?e]))
      = summarize_formats default_limits (PList ([] @ [PDict ?e]))" by blast
  from t nt have c: "fmt_step ?e ([], []) = fmt_step ((''descriptions'', PList []) # ?e) ([], [])"
    by blast
  from b have b': "summarize_formats default_limits (PList [PInt 3, PDict ?e]) = summarize_formats default_limits (PList [PDict ?e])"
    by simp
  show ?thesis
    using w a nd b' nt c by blast
qed




text \<open>
  C10. \<^verbatim>\<open>pick\<close> does not raise on missing records: a full record that is \<^verbatim>\<open>None\<close>
  behaves as the empty dictionary, whatever the basic record is, and so does a basic
  record that is \<^verbatim>\<open>None\<close>; with one record \<^verbatim>\<open>None\<close> and the other a dictionary the
  call returns a value; and when both records are \<^verbatim>\<open>None\<close> or empty the result is the
  default.
\<close>

theorem pick_missing_records:
  "pick k PNone basic d = pick k (PDict []) basic d
   \<and> pick k PNone PNone d = Inr d \<and> pick k PNone (PDict []) d = Inr d
   \<and> pick k (PDict []) PNone d = Inr d \<and> pick k (PDict []) (PDict []) d = Inr d
   \<and> (\<exists>v. pick k PNone (PDict b) d = Inr v)
   \<and> (\<exists>v. pick k (PDict f) PNone d = Inr v)
   \<and> pick k (PDict f) PNone d = pick k (PDict f) (PDict []) d"
  by (cases f; cases b) (auto simp: pick_def py_or_def dict_get_def split: option.splits)

end
